theory Spec2Isabelle
  imports Complex_Main "HOL-Library.Sublist" "HOL-Library.Char_ord" "HOL-Library.List_Lexorder"
    "HOL-Library.Multiset"
begin

section \<open>Python values and the operations the script applies to them\<close>

text \<open>
  The script \<^verbatim>\<open>src/scripts/datahub_search.py\<close> works on the values that
  \<^verbatim>\<open>response.json()\<close> returns: dictionaries, lists, strings, numbers, booleans and
  \<^verbatim>\<open>None\<close>, with no static type. The embedding keeps them untyped. A dictionary is the
  association list of its members (a key is read through \<open>map_of\<close>). A float is the
  rational it denotes; the non-finite floats are not represented. Text is a list of
  8-bit characters read as code points, and the case conversions act on the ASCII letters.
\<close>

datatype json =
    JNull
  | JBool bool
  | JInt int
  | JFloat rat
  | JStr string
  | JArr "json list"
  | JObj "(string \<times> json) list"

text \<open>The exceptions that the modelled code can raise, by class.\<close>

datatype pyexc = AttributeError | TypeError | ValueError | OverflowError | OSError

text \<open>Sequencing of computations that may raise: the first exception ends the evaluation.\<close>

definition and_then :: "pyexc + 'a \<Rightarrow> ('a \<Rightarrow> pyexc + 'b) \<Rightarrow> pyexc + 'b" where
  "and_then r k = (case r of Inl exc \<Rightarrow> Inl exc | Inr x \<Rightarrow> k x)"

text \<open>Truth value of an object, as \<^verbatim>\<open>if x:\<close>, \<^verbatim>\<open>x and y\<close>, \<^verbatim>\<open>x or y\<close> read it.\<close>

fun truthy :: "json \<Rightarrow> bool" where
  "truthy JNull = False"
| "truthy (JBool b) = b"
| "truthy (JInt i) = (i \<noteq> 0)"
| "truthy (JFloat r) = (r \<noteq> 0)"
| "truthy (JStr s) = (s \<noteq> [])"
| "truthy (JArr xs) = (xs \<noteq> [])"
| "truthy (JObj kvs) = (kvs \<noteq> [])"

text \<open>\<^verbatim>\<open>x.get(k, d)\<close>: only a dictionary has the method.\<close>

fun dict_get :: "json \<Rightarrow> string \<Rightarrow> json \<Rightarrow> pyexc + json" where
  "dict_get (JObj kvs) k d = Inr (case map_of kvs k of Some v \<Rightarrow> v | None \<Rightarrow> d)"
| "dict_get _ k d = Inl AttributeError"

text \<open>The case conversions of the ASCII letters, as a table.\<close>

definition lower_char :: "char \<Rightarrow> char" where
  "lower_char c =
     (case map_of (zip ''ABCDEFGHIJKLMNOPQRSTUVWXYZ'' ''abcdefghijklmnopqrstuvwxyz'') c of
        Some l \<Rightarrow> l
      | None \<Rightarrow> c)"

definition upper_char :: "char \<Rightarrow> char" where
  "upper_char c =
     (case map_of (zip ''abcdefghijklmnopqrstuvwxyz'' ''ABCDEFGHIJKLMNOPQRSTUVWXYZ'') c of
        Some u \<Rightarrow> u
      | None \<Rightarrow> c)"

definition str_lower :: "string \<Rightarrow> string" where
  "str_lower s = map lower_char s"

definition str_upper :: "string \<Rightarrow> string" where
  "str_upper s = map upper_char s"

text \<open>\<^verbatim>\<open>x.lower()\<close> and \<^verbatim>\<open>x.upper()\<close> on an untyped value: only a string has the methods.\<close>

fun lower :: "json \<Rightarrow> pyexc + string" where
  "lower (JStr s) = Inr (str_lower s)"
| "lower _ = Inl AttributeError"

fun upper :: "json \<Rightarrow> pyexc + string" where
  "upper (JStr s) = Inr (str_upper s)"
| "upper _ = Inl AttributeError"

fun startswith :: "string \<Rightarrow> string \<Rightarrow> bool" where
  "startswith s [] = True"
| "startswith [] (p # ps) = False"
| "startswith (c # s) (p # ps) = (c = p \<and> startswith s ps)"

definition endswith :: "string \<Rightarrow> string \<Rightarrow> bool" where
  "endswith s p = startswith (rev s) (rev p)"

text \<open>\<^verbatim>\<open>sub in s\<close> for two strings.\<close>

fun contains :: "string \<Rightarrow> string \<Rightarrow> bool" where
  "contains [] sub = (sub = [])"
| "contains (c # s) sub = (startswith (c # s) sub \<or> contains s sub)"

text \<open>\<^verbatim>\<open>str(n)\<close> for an integer: its decimal digits, with a sign when negative.\<close>

definition digit_char :: "nat \<Rightarrow> char" where
  "digit_char d = ''0123456789'' ! d"

fun str_nat :: "nat \<Rightarrow> string" where
  "str_nat n = (if n < 10 then [digit_char n] else str_nat (n div 10) @ [digit_char (n mod 10)])"

declare str_nat.simps [simp del]

definition str_int :: "int \<Rightarrow> string" where
  "str_int i = (if i < 0 then CHR ''-'' # str_nat (nat (- i)) else str_nat (nat i))"


section \<open>Configuration\<close>

definition REGIONS :: "(string \<times> string) list" where
  "REGIONS =
   [(''west-europe'', ''wabi-west-europe-e-primary-redirect.analysis.windows.net''),
    (''north-europe'', ''wabi-north-europe-e-primary-redirect.analysis.windows.net''),
    (''us-east'', ''wabi-us-east-e-primary-redirect.analysis.windows.net''),
    (''us-east2'', ''wabi-us-east2-e-primary-redirect.analysis.windows.net''),
    (''us-west'', ''wabi-us-west-e-primary-redirect.analysis.windows.net''),
    (''us-north-central'', ''wabi-us-north-central-e-primary-redirect.analysis.windows.net''),
    (''us-south-central'', ''wabi-us-south-central-e-primary-redirect.analysis.windows.net''),
    (''south-east-asia'', ''wabi-south-east-asia-e-primary-redirect.analysis.windows.net''),
    (''australia-east'', ''wabi-australia-east-e-primary-redirect.analysis.windows.net''),
    (''brazil-south'', ''wabi-brazil-south-e-primary-redirect.analysis.windows.net''),
    (''canada-central'', ''wabi-canada-central-e-primary-redirect.analysis.windows.net''),
    (''india-west'', ''wabi-india-west-e-primary-redirect.analysis.windows.net''),
    (''japan-east'', ''wabi-japan-east-e-primary-redirect.analysis.windows.net''),
    (''uk-south'', ''wabi-uk-south-e-primary-redirect.analysis.windows.net'')]"

record item_type_info =
  trident :: string
  category :: string
  desc :: string

definition info :: "string \<Rightarrow> string \<Rightarrow> string \<Rightarrow> item_type_info" where
  "info t c d = \<lparr>trident = t, category = c, desc = d\<rparr>"

definition ITEM_TYPES :: "(string \<times> item_type_info) list" where
  "ITEM_TYPES =
   [(''PowerBIReport'', info ''report'' ''Reports'' ''Power BI reports (.pbix)''),
    (''Report'', info ''report'' ''Reports'' ''Alias for PowerBIReport''),
    (''PaginatedReport'', info ''rdlreport'' ''Reports'' ''Paginated/RDL reports''),
    (''Dashboard'', info ''dashboard'' ''Reports'' ''Power BI dashboards''),
    (''OrgApp'', info ''OrgApp'' ''Reports'' ''Published Power BI apps''),
    (''Model'', info ''dataset'' ''Models'' ''Semantic models/datasets (USE THIS)''),
    (''SemanticModel'', info ''semanticModel'' ''Models'' ''Alternative (often returns 0)''),
    (''MetricSet'', info ''MetricSet'' ''Models'' ''Metric sets''),
    (''Lakehouse'', info ''Lakehouse'' ''Data'' ''Fabric lakehouses''),
    (''Warehouse'', info ''Warehouse'' ''Data'' ''Fabric data warehouses''),
    (''Datamart'', info ''datamart'' ''Data'' ''Power BI datamarts''),
    (''Sql'', info ''datamart'' ''Data'' ''SQL endpoints''),
    (''KustoDatabase'', info ''KustoDatabase'' ''Data'' ''KQL databases''),
    (''KustoEventHouse'', info ''KustoEventHouse'' ''Data'' ''Eventhouse''),
    (''SQLDbNative'', info ''SQLDbNative'' ''Data'' ''SQL databases''),
    (''CosmosDB'', info ''CosmosDB'' ''Data'' ''Cosmos DB mirrors''),
    (''DatabricksCatalog'', info ''DatabricksCatalog'' ''Data'' ''Databricks catalogs''),
    (''SqlAnalyticsEndpoint'', info ''SqlAnalyticsEndpoint'' ''Data'' ''SQL analytics endpoints''),
    (''WarehouseSnapshot'', info ''WarehouseSnapshot'' ''Data'' ''Warehouse snapshots''),
    (''Lakewarehouse'', info ''lake-warehouse'' ''Data'' ''Lake warehouses''),
    (''MountedWarehouse'', info ''mounted-warehouse'' ''Data'' ''Mounted warehouses''),
    (''MountedRelationalDatabase'', info ''MountedRelationalDatabase'' ''Data'' ''Mounted databases''),
    (''DataFlow'', info ''dataflow'' ''Integration'' ''Power BI dataflows (USE THIS)''),
    (''Dataflow'', info ''dataflow'' ''Integration'' ''Alias (may not work)''),
    (''DataflowFabric'', info ''DataflowFabric'' ''Integration'' ''Fabric dataflows Gen2''),
    (''Pipeline'', info ''Pipeline'' ''Integration'' ''Data pipelines''),
    (''DataPipeline'', info ''DataPipeline'' ''Integration'' ''Alias for Pipeline''),
    (''CopyJob'', info ''CopyJob'' ''Integration'' ''Copy jobs''),
    (''EventStream'', info ''EventStream'' ''Integration'' ''Event streams''),
    (''MountedDataFactory'', info ''MountedDataFactory'' ''Integration'' ''ADF connections''),
    (''ApacheAirflowProject'', info ''ApacheAirflowProject'' ''Integration'' ''Airflow projects''),
    (''SynapseNotebook'', info ''SynapseNotebook'' ''Compute'' ''Fabric notebooks (USE THIS)''),
    (''Notebook'', info ''SynapseNotebook'' ''Compute'' ''Alias for SynapseNotebook''),
    (''SparkJobDefinition'', info ''SparkJobDefinition'' ''Compute'' ''Spark job definitions''),
    (''MLModel'', info ''MLModel'' ''ML'' ''ML models''),
    (''MLExperiment'', info ''MLExperiment'' ''ML'' ''ML experiments''),
    (''OperationalAgents'', info ''OperationalAgents'' ''ML'' ''Operational agents''),
    (''LLMPlugin'', info ''LLMPlugin'' ''ML'' ''LLM/AI plugins''),
    (''KustoDashboard'', info ''KustoDashboard'' ''Real-Time'' ''Real-time dashboards''),
    (''KustoQueryWorkbench'', info ''KustoQueryWorkbench'' ''Real-Time'' ''KQL query workbench''),
    (''Reflex'', info ''Reflex'' ''Solutions'' ''Reflex/Activator items''),
    (''ReflexProject'', info ''ReflexProject'' ''Solutions'' ''Reflex projects''),
    (''GraphQL'', info ''GraphQL'' ''Solutions'' ''GraphQL APIs''),
    (''GraphModel'', info ''GraphModel'' ''Solutions'' ''Graph models''),
    (''FunctionSet'', info ''FunctionSet'' ''Solutions'' ''Function sets''),
    (''DataExploration'', info ''DataExploration'' ''Solutions'' ''Data exploration''),
    (''Exploration'', info ''Exploration'' ''Solutions'' ''Explorations''),
    (''Ontology'', info ''Ontology'' ''Knowledge'' ''Ontology items (IQ)''),
    (''DigitalTwinBuilder'', info ''DigitalTwinBuilder'' ''Industry'' ''Digital twin builder''),
    (''HealthDataManager'', info ''HealthDataManager'' ''Industry'' ''Healthcare data manager''),
    (''HLSCohort'', info ''HLSCohort'' ''Industry'' ''Healthcare cohorts''),
    (''RetailDataManager'', info ''RetailDataManager'' ''Industry'' ''Retail data manager''),
    (''SustainabilityDataManager'', info ''SustainabilityDataManager'' ''Industry'' ''Sustainability manager''),
    (''Environment'', info ''Environment'' ''Config'' ''Spark environments''),
    (''Variables'', info ''Variables'' ''Config'' ''Variable groups'')]"


section \<open>The search client\<close>

text \<open>
  \<^verbatim>\<open>search_datahub\<close> is the one place of external input and output. The transport
  (\<^verbatim>\<open>requests.post\<close>) is a parameter: it maps the request to what the call does. Either
  it returns a response, given by its status code, its text and what \<^verbatim>\<open>response.json()\<close>
  does on it, or it raises. Exceptions are told apart the way the two handlers of the
  source tell them apart: \<^verbatim>\<open>requests.exceptions.Timeout\<close>, or any other
  \<^verbatim>\<open>Exception\<close> with its message \<^verbatim>\<open>str(e)\<close>. An interrupt of the interpreter, which is
  not an \<^verbatim>\<open>Exception\<close>, is outside the model. The arguments have the types of the
  signature: text, a list of text, optional text and integers.
\<close>

datatype raised = RequestsTimeout | OtherException string

datatype http_reply =
    Response int string "raised + json"
  | Raises raised

record request =
  req_url :: string
  req_headers :: "(string \<times> string) list"
  req_json :: json
  req_timeout :: nat

text \<open>The loop over \<^verbatim>\<open>item_types\<close> that builds \<^verbatim>\<open>trident_types\<close>.\<close>

fun trident_types_of :: "string list \<Rightarrow> string list" where
  "trident_types_of [] = []"
| "trident_types_of (item_type # rest) =
     (case map_of ITEM_TYPES item_type of
        Some d \<Rightarrow> trident d # trident_types_of rest
      | None \<Rightarrow> str_lower item_type # trident_types_of rest)"

definition api_filters :: "string option \<Rightarrow> json list" where
  "api_filters workspace_id =
     (case workspace_id of
        None \<Rightarrow> []
      | Some w \<Rightarrow>
          if w = [] then []
          else [JObj [(''datahubFilterType'', JStr ''workspace''), (''values'', JArr [JStr w])]])"

definition build_request ::
  "string \<Rightarrow> string \<Rightarrow> string list \<Rightarrow> string option \<Rightarrow> int \<Rightarrow> int \<Rightarrow> request" where
  "build_request host token item_types workspace_id page_size page_number =
     \<lparr>req_url = ''https://'' @ host @ ''/metadata/datahub/V2/artifacts'',
      req_headers = [(''Authorization'', ''Bearer '' @ token),
                     (''Content-Type'', ''application/json'')],
      req_json = JObj
        [(''filters'', JArr (api_filters workspace_id)),
         (''hostFamily'', JInt 4),
         (''orderBy'', JStr ''Default''),
         (''orderDirection'', JStr []),
         (''pageNumber'', JInt page_number),
         (''pageSize'', JInt (min page_size 1000)),
         (''supportedTypes'', JArr (map JStr item_types)),
         (''tridentSupportedTypes'', JArr (map JStr (trident_types_of item_types)))],
      req_timeout = 60\<rparr>"

text \<open>The body of the \<^verbatim>\<open>try\<close> block: what it returns, or the exception it raises.\<close>

definition search_try :: "http_reply \<Rightarrow> string \<Rightarrow> string \<Rightarrow> raised + json" where
  "search_try reply region host =
     (case reply of
        Raises e \<Rightarrow> Inl e
      | Response status_code body parsed \<Rightarrow>
          if status_code = 200 then
            (case parsed of
               Inl e \<Rightarrow> Inl e
             | Inr items \<Rightarrow>
                 Inr (JObj
                   [(''success'', JBool True),
                    (''items'', (case items of JArr xs \<Rightarrow> JArr xs | _ \<Rightarrow> JArr [])),
                    (''count'', (case items of JArr xs \<Rightarrow> JInt (int (length xs)) | _ \<Rightarrow> JInt 0)),
                    (''region'', JStr region),
                    (''host'', JStr host)]))
          else
            Inr (JObj
              [(''success'', JBool False),
               (''error'', JStr (''HTTP '' @ str_int status_code @ '': '' @ take 200 body)),
               (''region'', JStr region)]))"

text \<open>
  The function returns its dictionary together with the requests it has issued, in
  order, so that "no network call" is a statement about the second component.
\<close>

definition search_datahub ::
  "(request \<Rightarrow> http_reply) \<Rightarrow> string \<Rightarrow> string list \<Rightarrow> string \<Rightarrow> string option \<Rightarrow> int \<Rightarrow> int
     \<Rightarrow> json \<times> request list" where
  "search_datahub post token item_types region workspace_id page_size page_number =
     (case map_of REGIONS region of
        None \<Rightarrow>
          (JObj [(''success'', JBool False),
                 (''error'', JStr (''Unknown region: '' @ region
                                    @ ''. Use --list-regions to see options.''))], [])
      | Some host \<Rightarrow>
          if host = [] then
            (JObj [(''success'', JBool False),
                   (''error'', JStr (''Unknown region: '' @ region
                                      @ ''. Use --list-regions to see options.''))], [])
          else
            let rq = build_request host token item_types workspace_id page_size page_number in
            (case search_try (post rq) region host of
               Inr result \<Rightarrow> (result, [rq])
             | Inl RequestsTimeout \<Rightarrow>
                 (JObj [(''success'', JBool False),
                        (''error'', JStr ''Request timed out (60s)''),
                        (''region'', JStr region)], [rq])
             | Inl (OtherException msg) \<Rightarrow>
                 (JObj [(''success'', JBool False),
                        (''error'', JStr msg),
                        (''region'', JStr region)], [rq])))"


section \<open>Dates\<close>

text \<open>A naive \<^verbatim>\<open>datetime\<close> object: its calendar fields.\<close>

record datetime =
  year :: nat
  month :: nat
  day :: nat
  hour :: nat
  minute :: nat
  second :: nat
  microsecond :: nat

fun lex_lt :: "nat list \<Rightarrow> nat list \<Rightarrow> bool" where
  "lex_lt (a # as) (b # bs) = (a < b \<or> (a = b \<and> lex_lt as bs))"
| "lex_lt _ _ = False"

text \<open>\<^verbatim>\<open>a < b\<close> for two naive datetimes; \<^verbatim>\<open>a >= b\<close> is its negation.\<close>

definition dt_lt :: "datetime \<Rightarrow> datetime \<Rightarrow> bool" where
  "dt_lt a b =
     lex_lt [year a, month a, day a, hour a, minute a, second a, microsecond a]
            [year b, month b, day b, hour b, minute b, second b, microsecond b]"

definition is_digit :: "char \<Rightarrow> bool" where
  "is_digit c = (c \<in> set ''0123456789'')"

definition digit_val :: "char \<Rightarrow> nat" where
  "digit_val c = of_char c - 48"

definition is_leap :: "nat \<Rightarrow> bool" where
  "is_leap y = (y mod 4 = 0 \<and> (y mod 400 = 0 \<or> y mod 100 \<noteq> 0))"

definition days_in_month :: "nat \<Rightarrow> nat \<Rightarrow> nat" where
  "days_in_month y m =
     (if m = 2 then (if is_leap y then 29 else 28)
      else if m \<in> set [4, 6, 9, 11] then 30 else 31)"

text \<open>
  \<^verbatim>\<open>datetime.strptime(s, "%Y-%m-%d")\<close>. The library matches the text against
  \<^verbatim>\<open>(\d\d\d\d)-(1[0-2]|0[1-9]|[1-9])-(3[0-1]|[1-2]\d|0[1-9]|[1-9]| [1-9])\<close>, refuses text
  that the match leaves unread, and then builds the date, which refuses the year 0 and a
  day the month does not have. Every refusal is a \<^verbatim>\<open>ValueError\<close>.
\<close>

fun parse_month :: "string \<Rightarrow> (nat \<times> string) option" where
  "parse_month [] = None"
| "parse_month [a] = (if a \<in> set ''123456789'' then Some (digit_val a, []) else None)"
| "parse_month (a # b # r) =
     (if a = CHR ''1'' \<and> b \<in> set ''012'' then Some (10 + digit_val b, r)
      else if a = CHR ''0'' \<and> b \<in> set ''123456789'' then Some (digit_val b, r)
      else if a \<in> set ''123456789'' then Some (digit_val a, b # r)
      else None)"

fun parse_day :: "string \<Rightarrow> nat option" where
  "parse_day [a] = (if a \<in> set ''123456789'' then Some (digit_val a) else None)"
| "parse_day [a, b] =
     (if a = CHR ''3'' \<and> b \<in> set ''01'' then Some (30 + digit_val b)
      else if a \<in> set ''12'' \<and> is_digit b then Some (10 * digit_val a + digit_val b)
      else if a \<in> set ''0 '' \<and> b \<in> set ''123456789'' then Some (digit_val b)
      else None)"
| "parse_day _ = None"

definition midnight :: "nat \<Rightarrow> nat \<Rightarrow> nat \<Rightarrow> datetime" where
  "midnight y m d =
     \<lparr>year = y, month = m, day = d, hour = 0, minute = 0, second = 0, microsecond = 0\<rparr>"

definition make_date :: "nat \<Rightarrow> nat \<Rightarrow> nat \<Rightarrow> pyexc + datetime" where
  "make_date y m d =
     (if 1 \<le> y \<and> d \<le> days_in_month y m then Inr (midnight y m d) else Inl ValueError)"

fun strptime_ymd :: "string \<Rightarrow> pyexc + datetime" where
  "strptime_ymd (y1 # y2 # y3 # y4 # dash # rest) =
     (if is_digit y1 \<and> is_digit y2 \<and> is_digit y3 \<and> is_digit y4 \<and> dash = CHR ''-'' then
        (case parse_month rest of
           None \<Rightarrow> Inl ValueError
         | Some (m, rest') \<Rightarrow>
             (case rest' of
                [] \<Rightarrow> Inl ValueError
              | dash' # rest'' \<Rightarrow>
                  if dash' = CHR ''-'' then
                    (case parse_day rest'' of
                       None \<Rightarrow> Inl ValueError
                     | Some d \<Rightarrow>
                         make_date (1000 * digit_val y1 + 100 * digit_val y2
                                      + 10 * digit_val y3 + digit_val y4) m d)
                  else Inl ValueError))
      else Inl ValueError)"
| "strptime_ymd _ = Inl ValueError"

text \<open>\<^verbatim>\<open>datetime.strptime(x, "%Y-%m-%d")\<close> on an untyped value: only text is accepted.\<close>

fun strptime :: "json \<Rightarrow> pyexc + datetime" where
  "strptime (JStr s) = strptime_ymd s"
| "strptime _ = Inl TypeError"

text \<open>
  \<^verbatim>\<open>x[:n]\<close> on an untyped value: text and lists are sliced, nothing else is. (A dictionary
  refuses the slice as a key: \<^verbatim>\<open>TypeError\<close> up to Python 3.11, \<^verbatim>\<open>KeyError\<close> from 3.12;
  no handler of the script catches either.)
\<close>

fun slice_to :: "nat \<Rightarrow> json \<Rightarrow> pyexc + json" where
  "slice_to n (JStr s) = Inr (JStr (take n s))"
| "slice_to n (JArr xs) = Inr (JArr (take n xs))"
| "slice_to n _ = Inl TypeError"

text \<open>
  \<^verbatim>\<open>int(s)\<close> for text: surrounding whitespace is dropped, a sign may come first, and the
  digits may be grouped by single underscores. The first argument is the interpreter's
  limit on the number of digits (\<^verbatim>\<open>sys.get_int_max_str_digits()\<close>, 0 for none), which
  applies beyond 640 digits.
\<close>

definition is_space :: "char \<Rightarrow> bool" where
  "is_space c = ((of_char c :: nat) \<in> set [9, 10, 11, 12, 13, 32])"

definition strip :: "string \<Rightarrow> string" where
  "strip s = rev (dropWhile is_space (rev (dropWhile is_space s)))"

fun int_body :: "string \<Rightarrow> bool" where
  "int_body [] = False"
| "int_body [c] = is_digit c"
| "int_body (c # d # ds) =
     (is_digit c \<and> (if d = CHR ''_'' then int_body ds else int_body (d # ds)))"

definition decimal :: "string \<Rightarrow> int" where
  "decimal ds = foldl (\<lambda>a c. 10 * a + int (digit_val c)) 0 ds"

definition py_int :: "nat \<Rightarrow> string \<Rightarrow> pyexc + int" where
  "py_int max_str_digits s =
     (let t = strip s;
          negative = startswith t ''-'';
          body = (if startswith t ''-'' \<or> startswith t ''+'' then tl t else t);
          ds = filter is_digit body
      in if int_body body \<and> \<not> (640 < length ds \<and> 0 < max_str_digits \<and> max_str_digits < length ds)
         then Inr (if negative then - decimal ds else decimal ds)
         else Inl ValueError)"

text \<open>
  What the script takes from the interpreter and the operating system.
  \<open>fromtimestamp_ms P ms\<close> is \<^verbatim>\<open>datetime.fromtimestamp(t)\<close> for the float \<^verbatim>\<open>t = ms / 1000\<close>:
  the local time of the instant, or the exception the conversion raises
  (\<^verbatim>\<open>OverflowError\<close>, \<^verbatim>\<open>OSError\<close> or \<^verbatim>\<open>ValueError\<close>). \<open>py_str P v\<close> is \<^verbatim>\<open>str(v)\<close> for a float,
  a list or a dictionary.
\<close>

record platform =
  int_max_str_digits :: nat
  fromtimestamp_ms :: "int \<Rightarrow> pyexc + datetime"
  py_str :: "json \<Rightarrow> string"

text \<open>
  \<^verbatim>\<open>ms / 1000\<close> on integers is correctly rounded to a double and raises \<^verbatim>\<open>OverflowError\<close>
  when the rounded quotient is not finite, that is from \<open>2 ^ 1024 - 2 ^ 970\<close> on.
\<close>

definition true_divide_overflows :: "int \<Rightarrow> bool" where
  "true_divide_overflows ms = (1000 * (2 ^ 1024 - 2 ^ 970) \<le> \<bar>ms\<bar>)"

definition datetime_of_ms :: "platform \<Rightarrow> int \<Rightarrow> pyexc + datetime" where
  "datetime_of_ms P ms =
     (if true_divide_overflows ms then Inl OverflowError else fromtimestamp_ms P ms)"

text \<open>\<^verbatim>\<open>_parse_odata_date\<close>; \<open>None\<close> is Python's \<^verbatim>\<open>None\<close>.\<close>

definition parse_odata_date :: "platform \<Rightarrow> json \<Rightarrow> pyexc + datetime option" where
  "parse_odata_date P date_str =
     (if \<not> truthy date_str then Inr None
      else case date_str of
        JStr s \<Rightarrow>
          if startswith s ''/Date('' \<and> endswith s '')/'' then
            (case and_then (py_int (int_max_str_digits P) (drop 6 (butlast (butlast s))))
                       (datetime_of_ms P) of
               Inr dt \<Rightarrow> Inr (Some dt)
             | Inl ValueError \<Rightarrow> Inr None
             | Inl OSError \<Rightarrow> Inr None
             | Inl e \<Rightarrow> Inl e)
          else
            (case strptime_ymd (take 10 s) of
               Inr dt \<Rightarrow> Inr (Some dt)
             | Inl ValueError \<Rightarrow> Inr None
             | Inl e \<Rightarrow> Inl e)
      | _ \<Rightarrow> Inl AttributeError)"

text \<open>
  A reference platform for evaluation: the local zone is UTC, \<^verbatim>\<open>time_t\<close> has 64 bits,
  \<^verbatim>\<open>tm_year\<close> has 32 bits, and the digit limit is the default 4300. The calendar date is
  computed from the day number. The interpreter also converts the instant one day earlier
  (its probe for a repeated local hour), so the first day of the year 1 is refused with
  the years before it. The sub-second part is taken from the exact quotient; the float's
  can differ from it by some microseconds once the instant is more than about 2^33
  seconds from the epoch. The text of floats and containers is left as a placeholder: no
  evaluation below prints one.
\<close>

definition civil_from_days :: "int \<Rightarrow> int \<times> nat \<times> nat" where
  "civil_from_days z0 =
     (let z = z0 + 719468;
          era = z div 146097;
          doe = z mod 146097;
          yoe = (doe - doe div 1460 + doe div 36524 - doe div 146096) div 365;
          doy = doe - (365 * yoe + yoe div 4 - yoe div 100);
          mp = (5 * doy + 2) div 153;
          d = doy - (153 * mp + 2) div 5 + 1;
          m = (if mp < 10 then mp + 3 else mp - 9);
          y = yoe + era * 400 + (if m \<le> 2 then 1 else 0)
      in (y, nat m, nat d))"

definition utc_fromtimestamp_ms :: "int \<Rightarrow> pyexc + datetime" where
  "utc_fromtimestamp_ms ms =
     (let secs = ms div 1000;
          sod = secs mod 86400;
          ymd = civil_from_days (secs div 86400)
      in if secs < - (2 ^ 63) \<or> 2 ^ 63 \<le> secs then Inl OverflowError
         else if fst ymd - 1900 < - (2 ^ 31) \<or> 2 ^ 31 \<le> fst ymd - 1900 then Inl OSError
         else if fst ymd < 1 \<or> 9999 < fst ymd then Inl ValueError
         else if fst (civil_from_days (secs div 86400 - 1)) < 1 then Inl ValueError
         else Inr \<lparr>year = nat (fst ymd), month = fst (snd ymd), day = snd (snd ymd),
                   hour = nat (sod div 3600), minute = nat ((sod mod 3600) div 60),
                   second = nat (sod mod 60), microsecond = nat ((ms mod 1000) * 1000)\<rparr>)"

definition utc_platform :: platform where
  "utc_platform =
     \<lparr>int_max_str_digits = 4300, fromtimestamp_ms = utc_fromtimestamp_ms,
      py_str = (\<lambda>v. ''?'')\<rparr>"


section \<open>Filtering\<close>

text \<open>
  \<^verbatim>\<open>a == b\<close> on untyped values. Numbers and booleans are equal when they denote the same
  number, lists when their elements are equal in order, dictionaries when they have the
  same keys with equal values. \<open>eq_form\<close> maps a value to the representative of its
  equality class.
\<close>

primrec eq_form :: "json \<Rightarrow> json" where
  "eq_form JNull = JNull"
| "eq_form (JBool b) = JFloat (if b then 1 else 0)"
| "eq_form (JInt i) = JFloat (of_int i)"
| "eq_form (JFloat r) = JFloat r"
| "eq_form (JStr s) = JStr s"
| "eq_form (JArr xs) = JArr (map eq_form xs)"
| "eq_form (JObj kvs) =
     JObj (map (\<lambda>k. (k, case map_of (map (map_prod id eq_form) kvs) k of
                           Some v \<Rightarrow> v | None \<Rightarrow> JNull))
               (sort (remdups (map fst kvs))))"

definition py_eq :: "json \<Rightarrow> json \<Rightarrow> bool" where
  "py_eq a b = (eq_form a = eq_form b)"

text \<open>
  A list comprehension \<^verbatim>\<open>[item for item in result if cond(item)]\<close>: the condition is
  evaluated item by item, and the first exception ends the comprehension.
\<close>

fun filter_py :: "('a \<Rightarrow> pyexc + bool) \<Rightarrow> 'a list \<Rightarrow> pyexc + 'a list" where
  "filter_py cond [] = Inr []"
| "filter_py cond (x # xs) =
     (case cond x of
        Inl e \<Rightarrow> Inl e
      | Inr b \<Rightarrow>
          (case filter_py cond xs of
             Inl e \<Rightarrow> Inl e
           | Inr ys \<Rightarrow> Inr (if b then x # ys else ys)))"

text \<open>\<^verbatim>\<open>x.get(k, "").lower()\<close> and \<^verbatim>\<open>x.get(k, "").upper()\<close>.\<close>

definition get_lower :: "json \<Rightarrow> string \<Rightarrow> pyexc + string" where
  "get_lower x k = and_then (dict_get x k (JStr [])) lower"

definition get_upper :: "json \<Rightarrow> string \<Rightarrow> pyexc + string" where
  "get_upper x k = and_then (dict_get x k (JStr [])) upper"

text \<open>The conditions of the comprehensions of \<^verbatim>\<open>apply_filters\<close>, in the order of the source.\<close>

definition name_cond :: "string \<Rightarrow> json \<Rightarrow> pyexc + bool" where
  "name_cond name_lower item =
     and_then (get_lower item ''displayName'') (\<lambda>s.
       if contains s name_lower then Inr True
       else and_then (get_lower item ''name'') (\<lambda>t. Inr (contains t name_lower)))"

definition workspace_cond :: "string \<Rightarrow> json \<Rightarrow> pyexc + bool" where
  "workspace_cond ws_lower item =
     and_then (get_lower item ''workspaceName'') (\<lambda>s. Inr (contains s ws_lower))"

definition owner_field :: "json \<Rightarrow> string \<Rightarrow> pyexc + string" where
  "owner_field item k = and_then (dict_get item ''ownerUser'' (JObj [])) (\<lambda>owner. get_lower owner k)"

definition owner_cond :: "string \<Rightarrow> json \<Rightarrow> pyexc + bool" where
  "owner_cond owner_lower item =
     and_then (owner_field item ''emailAddress'') (\<lambda>e.
       if contains e owner_lower then Inr True
       else and_then (owner_field item ''givenName'') (\<lambda>g.
         if contains g owner_lower then Inr True
         else and_then (owner_field item ''familyName'') (\<lambda>f. Inr (contains f owner_lower))))"

text \<open>
  \<^verbatim>\<open>item.get("lastVisitedTimeUTC") and datetime.strptime(item["lastVisitedTimeUTC"][:10],
  "%Y-%m-%d") >= since_date\<close>, and the same with \<^verbatim>\<open><\<close>.
\<close>

definition visited_date :: "json \<Rightarrow> pyexc + datetime option" where
  "visited_date item =
     and_then (dict_get item ''lastVisitedTimeUTC'' JNull) (\<lambda>v.
       if truthy v then and_then (slice_to 10 v) (\<lambda>t. and_then (strptime t) (\<lambda>d. Inr (Some d)))
       else Inr None)"

definition visited_since_cond :: "datetime \<Rightarrow> json \<Rightarrow> pyexc + bool" where
  "visited_since_cond since_date item =
     and_then (visited_date item) (\<lambda>v.
       case v of None \<Rightarrow> Inr False | Some d \<Rightarrow> Inr (\<not> dt_lt d since_date))"

definition not_visited_since_cond :: "datetime \<Rightarrow> json \<Rightarrow> pyexc + bool" where
  "not_visited_since_cond since_date item =
     and_then (visited_date item) (\<lambda>v.
       case v of None \<Rightarrow> Inr False | Some d \<Rightarrow> Inr (dt_lt d since_date))"

text \<open>
  The local function \<^verbatim>\<open>get_refresh_datetime\<close>, defined alike in both refresh filters.
  A condition calls it twice on the same item; it has no effect, so the model calls it once.
\<close>

definition get_refresh_datetime :: "platform \<Rightarrow> json \<Rightarrow> pyexc + datetime option" where
  "get_refresh_datetime P item =
     and_then (dict_get item ''lastRefreshTime'' JNull) (\<lambda>refresh_str.
       if truthy refresh_str then parse_odata_date P refresh_str
       else
         and_then (dict_get item ''artifact'' (JObj [])) (\<lambda>artifact.
         and_then (dict_get artifact ''LastRefreshTime'' JNull) (\<lambda>upper_case.
         and_then (if truthy upper_case then Inr upper_case
               else dict_get artifact ''lastRefreshTime'' JNull) (\<lambda>refresh_str.
           if truthy refresh_str then parse_odata_date P refresh_str
           else
             and_then (dict_get artifact ''lastUpdatedDate'' JNull) (\<lambda>updated.
               if truthy updated then parse_odata_date P updated else Inr None)))))"

definition refreshed_since_cond :: "platform \<Rightarrow> datetime \<Rightarrow> json \<Rightarrow> pyexc + bool" where
  "refreshed_since_cond P since_date item =
     and_then (get_refresh_datetime P item) (\<lambda>v.
       case v of None \<Rightarrow> Inr False | Some d \<Rightarrow> Inr (\<not> dt_lt d since_date))"

definition not_refreshed_since_cond :: "platform \<Rightarrow> datetime \<Rightarrow> json \<Rightarrow> pyexc + bool" where
  "not_refreshed_since_cond P since_date item =
     and_then (get_refresh_datetime P item) (\<lambda>v.
       case v of None \<Rightarrow> Inr False | Some d \<Rightarrow> Inr (dt_lt d since_date))"

definition modified_date :: "platform \<Rightarrow> json \<Rightarrow> pyexc + datetime option" where
  "modified_date P item = and_then (dict_get item ''modifiedDate'' JNull) (parse_odata_date P)"

definition updated_since_cond :: "platform \<Rightarrow> datetime \<Rightarrow> json \<Rightarrow> pyexc + bool" where
  "updated_since_cond P since_date item =
     and_then (modified_date P item) (\<lambda>v.
       case v of None \<Rightarrow> Inr False | Some d \<Rightarrow> Inr (\<not> dt_lt d since_date))"

definition not_updated_since_cond :: "platform \<Rightarrow> datetime \<Rightarrow> json \<Rightarrow> pyexc + bool" where
  "not_updated_since_cond P since_date item =
     and_then (modified_date P item) (\<lambda>v.
       case v of None \<Rightarrow> Inr False | Some d \<Rightarrow> Inr (dt_lt d since_date))"

text \<open>The local function \<^verbatim>\<open>matches_storage\<close>; \<open>mode_lower\<close> is its free variable.\<close>

definition matches_storage :: "string \<Rightarrow> json \<Rightarrow> pyexc + bool" where
  "matches_storage mode_lower item =
     and_then (dict_get item ''artifact'' (JObj [])) (\<lambda>artifact.
     and_then (dict_get artifact ''storageMode'' JNull) (\<lambda>sm.
     and_then (dict_get artifact ''directLakeMode'' (JBool False)) (\<lambda>dl.
       if mode_lower = ''import'' \<and> py_eq sm (JInt 1) then Inr True
       else if mode_lower = ''directquery'' \<and> py_eq sm (JInt 2) then Inr True
       else if mode_lower = ''directlake'' \<and> truthy dl then Inr True
       else Inr False)))"

definition sku_cond :: "string \<Rightarrow> json \<Rightarrow> pyexc + bool" where
  "sku_cond sku_upper item =
     and_then (dict_get item ''artifact'' (JObj [])) (\<lambda>artifact.
     and_then (get_upper artifact ''sharedFromEnterpriseCapacitySku'') (\<lambda>s.
       Inr (contains s sku_upper)))"

text \<open>
  The state between two filters: the working list \<^verbatim>\<open>result\<close> and the lines written to
  the standard error stream so far.
\<close>

type_synonym run = "json list \<times> string list"

text \<open>\<^verbatim>\<open>if f: ...\<close> for an optional text argument: the block runs when the text is not empty.\<close>

definition when_given :: "string option \<Rightarrow> (string \<Rightarrow> run \<Rightarrow> pyexc + run) \<Rightarrow> run \<Rightarrow> pyexc + run" where
  "when_given arg block r =
     (case arg of None \<Rightarrow> Inr r | Some s \<Rightarrow> if s = [] then Inr r else block s r)"

text \<open>A filter without a handler: \<^verbatim>\<open>result = [item for item in result if cond(item)]\<close>.\<close>

definition keep_if :: "(json \<Rightarrow> pyexc + bool) \<Rightarrow> run \<Rightarrow> pyexc + run" where
  "keep_if cond r = and_then (filter_py cond (fst r)) (\<lambda>ys. Inr (ys, snd r))"

text \<open>
  A date filter:
  \<^verbatim>\<open>try: since_date = datetime.strptime(arg, "%Y-%m-%d"); result = [...]\<close>
  \<^verbatim>\<open>except ValueError: print(f"Warning: Invalid date format '{arg}', use YYYY-MM-DD", file=sys.stderr)\<close>.
  The handler covers the whole block, the comprehension included; when it runs,
  \<^verbatim>\<open>result\<close> has not been assigned and keeps its value.
\<close>

definition date_warning :: "string \<Rightarrow> string" where
  "date_warning arg = ''Warning: Invalid date format '' @ [CHR 0x27] @ arg @ [CHR 0x27] @ '', use YYYY-MM-DD''"

definition date_filter :: "(datetime \<Rightarrow> json \<Rightarrow> pyexc + bool) \<Rightarrow> string \<Rightarrow> run \<Rightarrow> pyexc + run" where
  "date_filter cond arg r =
     (case and_then (strptime_ymd arg) (\<lambda>since_date. filter_py (cond since_date) (fst r)) of
        Inr ys \<Rightarrow> Inr (ys, snd r)
      | Inl ValueError \<Rightarrow> Inr (fst r, snd r @ [date_warning arg])
      | Inl e \<Rightarrow> Inl e)"

record filter_args =
  name_filter :: "string option"
  workspace_filter :: "string option"
  owner_filter :: "string option"
  visited_since :: "string option"
  not_visited_since :: "string option"
  refreshed_since :: "string option"
  not_refreshed_since :: "string option"
  updated_since :: "string option"
  not_updated_since :: "string option"
  storage_mode :: "string option"
  capacity_sku :: "string option"

text \<open>The defaults of the keyword arguments: every one \<^verbatim>\<open>None\<close>.\<close>

definition no_filters :: filter_args where
  "no_filters =
     \<lparr>name_filter = None, workspace_filter = None, owner_filter = None,
      visited_since = None, not_visited_since = None, refreshed_since = None,
      not_refreshed_since = None, updated_since = None, not_updated_since = None,
      storage_mode = None, capacity_sku = None\<rparr>"

text \<open>
  \<^verbatim>\<open>apply_filters\<close>: the eleven blocks in the order of the source. It returns the final
  \<^verbatim>\<open>result\<close> with the warnings printed, or the exception that no handler caught.
\<close>

definition apply_filters :: "platform \<Rightarrow> json list \<Rightarrow> filter_args \<Rightarrow> pyexc + run" where
  "apply_filters P items a =
     and_then (when_given (name_filter a) (\<lambda>f. keep_if (name_cond (str_lower f))) (items, [])) (\<lambda>r.
     and_then (when_given (workspace_filter a) (\<lambda>f. keep_if (workspace_cond (str_lower f))) r) (\<lambda>r.
     and_then (when_given (owner_filter a) (\<lambda>f. keep_if (owner_cond (str_lower f))) r) (\<lambda>r.
     and_then (when_given (visited_since a) (date_filter visited_since_cond) r) (\<lambda>r.
     and_then (when_given (not_visited_since a) (date_filter not_visited_since_cond) r) (\<lambda>r.
     and_then (when_given (refreshed_since a) (date_filter (refreshed_since_cond P)) r) (\<lambda>r.
     and_then (when_given (not_refreshed_since a) (date_filter (not_refreshed_since_cond P)) r) (\<lambda>r.
     and_then (when_given (updated_since a) (date_filter (updated_since_cond P)) r) (\<lambda>r.
     and_then (when_given (not_updated_since a) (date_filter (not_updated_since_cond P)) r) (\<lambda>r.
     and_then (when_given (storage_mode a) (\<lambda>f. keep_if (matches_storage (str_lower f))) r) (\<lambda>r.
     when_given (capacity_sku a) (\<lambda>f. keep_if (sku_cond (str_upper f))) r))))))))))"

section \<open>Sorting\<close>

text \<open>
  \<^verbatim>\<open>a < b\<close> on untyped values, on the representatives of their equality classes: numbers
  (booleans among them) by value, text by code points, lists by their first unequal
  elements or else by length. Every other pair has no order: the comparison raises
  \<^verbatim>\<open>TypeError\<close>, here \<open>None\<close>.
\<close>

fun lt_form :: "json \<Rightarrow> json \<Rightarrow> bool option"
  and lt_forms :: "json list \<Rightarrow> json list \<Rightarrow> bool option" where
  "lt_form (JFloat x) (JFloat y) = Some (x < y)"
| "lt_form (JStr s) (JStr t) = Some (s < t)"
| "lt_form (JArr xs) (JArr ys) = lt_forms xs ys"
| "lt_form _ _ = None"
| "lt_forms [] [] = Some False"
| "lt_forms [] (y # ys) = Some True"
| "lt_forms (x # xs) [] = Some False"
| "lt_forms (x # xs) (y # ys) = (if x = y then lt_forms xs ys else lt_form x y)"

definition py_lt :: "json \<Rightarrow> json \<Rightarrow> bool option" where
  "py_lt a b = lt_form (eq_form a) (eq_form b)"

text \<open>
  \<^verbatim>\<open>sorted(items, key=f, reverse=r)\<close>. The library computes the key of every item first, in
  order, so the first exception of \<^verbatim>\<open>f\<close> ends the call. Its sort is stable and reads the
  keys through \<^verbatim>\<open><\<close> only; for \<^verbatim>\<open>reverse\<close> it reverses the list, sorts, and reverses the
  result. A list of fewer than two items is never compared. Otherwise, when two of the
  keys have no order the sort meets such a comparison and raises \<^verbatim>\<open>TypeError\<close>. The sort
  itself is modelled by insertion from the right, each item being put before the first
  one that is not smaller.
\<close>

fun map_py :: "('a \<Rightarrow> pyexc + 'b) \<Rightarrow> 'a list \<Rightarrow> pyexc + 'b list" where
  "map_py f [] = Inr []"
| "map_py f (x # xs) =
     (case f x of
        Inl e \<Rightarrow> Inl e
      | Inr y \<Rightarrow> (case map_py f xs of Inl e \<Rightarrow> Inl e | Inr ys \<Rightarrow> Inr (y # ys)))"

fun ordered_keys :: "json list \<Rightarrow> bool" where
  "ordered_keys [] = True"
| "ordered_keys (k # ks) =
     (list_all (\<lambda>j. py_lt k j \<noteq> None \<and> py_lt j k \<noteq> None) ks \<and> ordered_keys ks)"

fun insort_pair :: "json \<times> 'a \<Rightarrow> (json \<times> 'a) list \<Rightarrow> (json \<times> 'a) list" where
  "insort_pair x [] = [x]"
| "insort_pair x (y # ys) =
     (if py_lt (fst y) (fst x) = Some True then y # insort_pair x ys else x # y # ys)"

definition sort_pairs :: "(json \<times> 'a) list \<Rightarrow> (json \<times> 'a) list" where
  "sort_pairs kxs = foldr insort_pair kxs []"

definition py_sorted :: "(json \<Rightarrow> pyexc + json) \<Rightarrow> bool \<Rightarrow> json list \<Rightarrow> pyexc + json list" where
  "py_sorted key reverse items =
     and_then (map_py key items) (\<lambda>keys.
       if ordered_keys keys then
         Inr (map snd (if reverse then rev (sort_pairs (rev (zip keys items)))
                       else sort_pairs (zip keys items)))
       else Inl TypeError)"

text \<open>\<^verbatim>\<open>_get_item_refresh_time\<close>; \<open>JNull\<close> is Python's \<^verbatim>\<open>None\<close>.\<close>

definition get_item_refresh_time :: "json \<Rightarrow> pyexc + json" where
  "get_item_refresh_time item =
     and_then (dict_get item ''lastRefreshTime'' JNull) (\<lambda>refresh_time.
       if truthy refresh_time then Inr refresh_time
       else
         and_then (dict_get item ''artifact'' (JObj [])) (\<lambda>artifact.
         and_then (dict_get artifact ''LastRefreshTime'' JNull) (\<lambda>upper_case.
         and_then (if truthy upper_case then Inr upper_case
                   else dict_get artifact ''lastRefreshTime'' JNull) (\<lambda>refresh_time.
           if truthy refresh_time then Inr refresh_time
           else
             and_then (dict_get artifact ''lastUpdatedDate'' JNull) (\<lambda>updated.
               if truthy updated then Inr updated else Inr JNull)))))"

text \<open>The six key functions of \<^verbatim>\<open>sort_items\<close>, the \<^verbatim>\<open>lambda\<close> of each branch.\<close>

definition key_name :: "json \<Rightarrow> pyexc + json" where
  "key_name x = and_then (get_lower x ''displayName'') (\<lambda>s. Inr (JStr s))"

definition key_workspace :: "json \<Rightarrow> pyexc + json" where
  "key_workspace x = and_then (get_lower x ''workspaceName'') (\<lambda>s. Inr (JStr s))"

definition key_last_visited :: "json \<Rightarrow> pyexc + json" where
  "key_last_visited x = dict_get x ''lastVisitedTimeUTC'' (JStr [])"

definition key_last_refreshed :: "json \<Rightarrow> pyexc + json" where
  "key_last_refreshed x =
     and_then (get_item_refresh_time x) (\<lambda>t. Inr (if truthy t then t else JStr []))"

definition key_last_modified :: "json \<Rightarrow> pyexc + json" where
  "key_last_modified x = dict_get x ''modifiedDate'' (JStr [])"

definition key_owner :: "json \<Rightarrow> pyexc + json" where
  "key_owner x = and_then (owner_field x ''emailAddress'') (\<lambda>s. Inr (JStr s))"

definition sort_items :: "json list \<Rightarrow> string \<Rightarrow> string \<Rightarrow> pyexc + json list" where
  "sort_items items sort_by sort_order =
     (let reverse = (str_lower sort_order \<noteq> ''asc'') in
      if sort_by = ''name'' then py_sorted key_name reverse items
      else if sort_by = ''workspace'' then py_sorted key_workspace reverse items
      else if sort_by = ''last-visited'' then py_sorted key_last_visited reverse items
      else if sort_by = ''last-refreshed'' then py_sorted key_last_refreshed reverse items
      else if sort_by = ''last-modified'' then py_sorted key_last_modified reverse items
      else if sort_by = ''owner'' then py_sorted key_owner reverse items
      else Inr items)"


section \<open>Output formatting\<close>

text \<open>
  \<^verbatim>\<open>str(v)\<close>, as an f-string applies it to a value it inserts: text is itself, and the
  platform gives the text of a float, a list or a dictionary.
\<close>

definition str_of :: "platform \<Rightarrow> json \<Rightarrow> string" where
  "str_of P v =
     (case v of
        JStr s \<Rightarrow> s
      | JNull \<Rightarrow> ''None''
      | JBool b \<Rightarrow> (if b then ''True'' else ''False'')
      | JInt i \<Rightarrow> str_int i
      | _ \<Rightarrow> py_str P v)"

text \<open>\<^verbatim>\<open>sep.join(lines)\<close>.\<close>

fun join :: "string \<Rightarrow> string list \<Rightarrow> string" where
  "join sep [] = []"
| "join sep [l] = l"
| "join sep (l # m # ls) = l @ sep @ join sep (m # ls)"

text \<open>\<^verbatim>\<open>dt.isoformat()\<close>: the fields with leading zeros, the microseconds only when not 0.\<close>

definition zero_pad :: "nat \<Rightarrow> nat \<Rightarrow> string" where
  "zero_pad width n = replicate (width - length (str_nat n)) (CHR ''0'') @ str_nat n"

definition isoformat :: "datetime \<Rightarrow> string" where
  "isoformat dt =
     zero_pad 4 (year dt) @ ''-'' @ zero_pad 2 (month dt) @ ''-'' @ zero_pad 2 (day dt) @ ''T''
     @ zero_pad 2 (hour dt) @ '':'' @ zero_pad 2 (minute dt) @ '':'' @ zero_pad 2 (second dt)
     @ (if microsecond dt = 0 then [] else ''.'' @ zero_pad 6 (microsecond dt))"

text \<open>\<^verbatim>\<open>dt = _parse_odata_date(x); return dt.isoformat() if dt else None\<close>.\<close>

definition iso_or_none :: "platform \<Rightarrow> json \<Rightarrow> pyexc + json" where
  "iso_or_none P x =
     and_then (parse_odata_date P x) (\<lambda>dt.
       case dt of None \<Rightarrow> Inr JNull | Some d \<Rightarrow> Inr (JStr (isoformat d)))"

text \<open>\<^verbatim>\<open>_get_refresh_time\<close>, \<^verbatim>\<open>_get_modified_time\<close> and \<^verbatim>\<open>_get_storage_mode\<close>.\<close>

definition get_refresh_time :: "platform \<Rightarrow> json \<Rightarrow> pyexc + json" where
  "get_refresh_time P item =
     and_then (dict_get item ''lastRefreshTime'' JNull) (\<lambda>refresh_time.
       if truthy refresh_time then iso_or_none P refresh_time
       else
         and_then (dict_get item ''artifact'' (JObj [])) (\<lambda>artifact.
         and_then (dict_get artifact ''LastRefreshTime'' JNull) (\<lambda>upper_case.
         and_then (if truthy upper_case then Inr upper_case
                   else dict_get artifact ''lastRefreshTime'' JNull) (\<lambda>refresh_time.
           if truthy refresh_time then iso_or_none P refresh_time
           else
             and_then (dict_get artifact ''lastUpdatedDate'' JNull) (\<lambda>updated.
               if truthy updated then iso_or_none P updated else Inr JNull)))))"

definition get_modified_time :: "platform \<Rightarrow> json \<Rightarrow> pyexc + json" where
  "get_modified_time P item =
     and_then (dict_get item ''modifiedDate'' JNull) (\<lambda>modified.
       if truthy modified then iso_or_none P modified else Inr JNull)"

definition get_storage_mode :: "json \<Rightarrow> pyexc + string" where
  "get_storage_mode item =
     and_then (dict_get item ''artifact'' (JObj [])) (\<lambda>artifact.
     and_then (dict_get artifact ''directLakeMode'' JNull) (\<lambda>dl.
       if truthy dl then Inr ''DirectLake''
       else
         and_then (dict_get artifact ''storageMode'' JNull) (\<lambda>sm.
           if py_eq sm (JInt 1) then Inr ''Import''
           else if py_eq sm (JInt 2) then Inr ''DirectQuery''
           else Inr ''Unknown'')))"

text \<open>
  \<^verbatim>\<open>json.dumps(v, indent=2)\<close> with the default \<^verbatim>\<open>ensure_ascii\<close>: \<open>dumps v l\<close> is the text of
  \<open>v\<close> at nesting depth \<open>l\<close>. The members of a dictionary are written in order, each
  key once. The text of a float is the platform's.
\<close>

definition hex_digit :: "nat \<Rightarrow> char" where
  "hex_digit d = ''0123456789abcdef'' ! d"

definition escape_char :: "char \<Rightarrow> string" where
  "escape_char c =
     (if c = CHR 0x22 then [CHR 0x5C, CHR 0x22]
      else if c = CHR 0x5C then [CHR 0x5C, CHR 0x5C]
      else if c = CHR 0x0A then [CHR 0x5C, CHR ''n'']
      else if c = CHR 0x0D then [CHR 0x5C, CHR ''r'']
      else if c = CHR 0x09 then [CHR 0x5C, CHR ''t'']
      else if c = CHR 0x08 then [CHR 0x5C, CHR ''b'']
      else if c = CHR 0x0C then [CHR 0x5C, CHR ''f'']
      else if 32 \<le> (of_char c :: nat) \<and> (of_char c :: nat) \<le> 126 then [c]
      else [CHR 0x5C, CHR ''u'', CHR ''0'', CHR ''0'',
            hex_digit ((of_char c :: nat) div 16), hex_digit ((of_char c :: nat) mod 16)])"

definition quote :: "string \<Rightarrow> string" where
  "quote s = [CHR 0x22] @ concat (map escape_char s) @ [CHR 0x22]"

definition indent_of :: "nat \<Rightarrow> string" where
  "indent_of l = replicate (2 * l) (CHR '' '')"

definition keys_of :: "(string \<times> 'a) list \<Rightarrow> string list" where
  "keys_of kvs = rev (remdups (rev (map fst kvs)))"

definition bracket :: "string \<Rightarrow> string \<Rightarrow> nat \<Rightarrow> string list \<Rightarrow> string" where
  "bracket left right l parts =
     (if parts = [] then left @ right
      else left @ [CHR 0x0A] @ indent_of (Suc l)
           @ join ('','' @ [CHR 0x0A] @ indent_of (Suc l)) parts
           @ [CHR 0x0A] @ indent_of l @ right)"

primrec dumps :: "platform \<Rightarrow> json \<Rightarrow> nat \<Rightarrow> string" where
  "dumps P JNull l = ''null''"
| "dumps P (JBool b) l = (if b then ''true'' else ''false'')"
| "dumps P (JInt i) l = str_int i"
| "dumps P (JFloat r) l = py_str P (JFloat r)"
| "dumps P (JStr s) l = quote s"
| "dumps P (JArr xs) l = bracket ''['' '']'' l (map (\<lambda>x. dumps P x (Suc l)) xs)"
| "dumps P (JObj kvs) l =
     bracket ''{'' ''}'' l
       (map (\<lambda>k. quote k @ '': '' @
                 (case map_of (map (map_prod id (\<lambda>v. dumps P v (Suc l))) kvs) k of
                    Some t \<Rightarrow> t | None \<Rightarrow> []))
            (keys_of kvs))"

text \<open>The record that the \<^verbatim>\<open>json\<close> mode builds for one item, entry by entry.\<close>

definition display_name :: "json \<Rightarrow> json \<Rightarrow> pyexc + json" where
  "display_name item fallback =
     and_then (dict_get item ''name'' fallback) (\<lambda>n. dict_get item ''displayName'' n)"

definition owner_name :: "platform \<Rightarrow> json \<Rightarrow> pyexc + string" where
  "owner_name P owner =
     and_then (dict_get owner ''givenName'' (JStr [])) (\<lambda>g.
     and_then (dict_get owner ''familyName'' (JStr [])) (\<lambda>f.
       Inr (str_of P g @ '' '' @ str_of P f)))"

definition cleaned_item :: "platform \<Rightarrow> json \<Rightarrow> pyexc + json" where
  "cleaned_item P item =
     and_then (display_name item JNull) (\<lambda>name.
     and_then (dict_get item ''workspaceName'' JNull) (\<lambda>workspace.
     and_then (dict_get item ''workspaceObjectId'' JNull) (\<lambda>workspace_id.
     and_then (dict_get item ''objectId'' JNull) (\<lambda>object_id.
     and_then (dict_get item ''lastVisitedTimeUTC'' JNull) (\<lambda>last_visited.
     and_then (get_refresh_time P item) (\<lambda>last_refreshed.
     and_then (get_modified_time P item) (\<lambda>last_modified.
     and_then (dict_get item ''ownerUser'' (JObj [])) (\<lambda>owner.
     and_then (dict_get owner ''emailAddress'' JNull) (\<lambda>email.
     and_then (dict_get item ''ownerUser'' (JObj [])) (\<lambda>owner'.
     and_then (owner_name P owner') (\<lambda>full_name.
     and_then (get_storage_mode item) (\<lambda>mode.
     and_then (dict_get item ''artifact'' (JObj [])) (\<lambda>artifact.
     and_then (dict_get artifact ''sharedFromEnterpriseCapacitySku'' JNull) (\<lambda>sku.
     and_then (dict_get item ''isDiscoverable'' JNull) (\<lambda>discoverable.
       Inr (JObj
         [(''name'', name), (''workspace'', workspace), (''workspaceId'', workspace_id),
          (''id'', object_id), (''lastVisited'', last_visited),
          (''lastRefreshed'', last_refreshed), (''lastModified'', last_modified),
          (''owner'', email), (''ownerName'', JStr (strip full_name)),
          (''storageMode'', JStr mode), (''capacitySku'', sku),
          (''isDiscoverable'', discoverable)]))))))))))))))))"

text \<open>The line of the \<^verbatim>\<open>brief\<close> mode and the nine lines of the \<^verbatim>\<open>detailed\<close> mode.\<close>

definition brief_line :: "platform \<Rightarrow> json \<Rightarrow> pyexc + string" where
  "brief_line P item =
     and_then (display_name item (JStr ''Unknown'')) (\<lambda>name.
     and_then (dict_get item ''workspaceName'' (JStr [])) (\<lambda>workspace.
       Inr (str_of P workspace @ ''/'' @ str_of P name)))"

definition detailed_lines :: "platform \<Rightarrow> json \<Rightarrow> pyexc + string list" where
  "detailed_lines P item =
     and_then (display_name item (JStr ''Unknown'')) (\<lambda>name.
     and_then (dict_get item ''workspaceName'' (JStr ''N/A'')) (\<lambda>workspace.
     and_then (dict_get item ''objectId'' (JStr ''N/A'')) (\<lambda>object_id.
     and_then (dict_get item ''lastVisitedTimeUTC'' JNull) (\<lambda>visited.
     and_then (if truthy visited
               then and_then (dict_get item ''lastVisitedTimeUTC'' (JStr ''N/A'')) (slice_to 19)
               else Inr (JStr ''N/A'')) (\<lambda>last_visit.
     and_then (dict_get item ''ownerUser'' (JObj [])) (\<lambda>owner.
     and_then (owner_name P owner) (\<lambda>full_name.
     and_then (dict_get owner ''emailAddress'' (JStr ''N/A'')) (\<lambda>email.
     and_then (get_storage_mode item) (\<lambda>mode.
     and_then (dict_get item ''artifact'' (JObj [])) (\<lambda>artifact.
     and_then (dict_get artifact ''sharedFromEnterpriseCapacitySku'' (JStr ''N/A'')) (\<lambda>sku.
     and_then (dict_get item ''isDiscoverable'' (JStr ''N/A'')) (\<lambda>discoverable.
       Inr [''Name:        '' @ str_of P name,
            ''Workspace:   '' @ str_of P workspace,
            ''ID:          '' @ str_of P object_id,
            ''Last Visit:  '' @ str_of P last_visit,
            ''Owner:       '' @ full_name @ '' <'' @ str_of P email @ ''>'',
            ''Storage:     '' @ mode,
            ''Capacity:    '' @ str_of P sku,
            ''Discoverable:'' @ str_of P discoverable,
            replicate 60 (CHR ''-'')]))))))))))))"

text \<open>
  The row of the \<^verbatim>\<open>table\<close> mode. \<^verbatim>\<open>f"{x:<n}"\<close> pads text on the right to \<open>n\<close> columns; a
  list, which the slices let through, refuses the format with \<^verbatim>\<open>TypeError\<close>.
\<close>

fun ljust :: "nat \<Rightarrow> json \<Rightarrow> pyexc + string" where
  "ljust n (JStr s) = Inr (s @ replicate (n - length s) (CHR '' ''))"
| "ljust n _ = Inl TypeError"

definition table_row :: "platform \<Rightarrow> json \<Rightarrow> pyexc + string" where
  "table_row P item =
     and_then (display_name item (JStr ''Unknown'')) (\<lambda>full.
     and_then (slice_to 34 full) (\<lambda>name.
     and_then (dict_get item ''workspaceName'' (JStr [])) (\<lambda>ws.
     and_then (slice_to 21 ws) (\<lambda>workspace.
     and_then (dict_get item ''lastVisitedTimeUTC'' JNull) (\<lambda>visited.
     and_then (if truthy visited
               then and_then (dict_get item ''lastVisitedTimeUTC'' (JStr [])) (slice_to 10)
               else Inr (JStr [])) (\<lambda>last_visit.
     and_then (dict_get item ''ownerUser'' (JObj [])) (\<lambda>owner.
     and_then (owner_name P owner) (\<lambda>full_name.
     and_then (ljust 35 name) (\<lambda>c1.
     and_then (ljust 22 workspace) (\<lambda>c2.
     and_then (ljust 12 last_visit) (\<lambda>c3.
     and_then (ljust 20 (JStr (take 19 full_name))) (\<lambda>c4.
       Inr (c1 @ '' '' @ c2 @ '' '' @ c3 @ '' '' @ c4)))))))))))))"

definition table_header :: "string list" where
  "table_header =
     [''Name'' @ replicate 31 (CHR '' '') @ '' '' @ ''Workspace'' @ replicate 13 (CHR '' '') @ '' ''
        @ ''Last Visited'' @ '' '' @ ''Owner'' @ replicate 15 (CHR '' ''),
      replicate 92 (CHR ''-'')]"

text \<open>\<^verbatim>\<open>format_output\<close>; the argument \<^verbatim>\<open>show_fields\<close> is not read by the source.\<close>

definition format_output :: "platform \<Rightarrow> json list \<Rightarrow> string \<Rightarrow> pyexc + string" where
  "format_output P items output_format =
     (if output_format = ''json'' then
        and_then (map_py (cleaned_item P) items) (\<lambda>cleaned. Inr (dumps P (JArr cleaned) 0))
      else if items = [] then Inr ''No items found.''
      else if output_format = ''brief'' then
        and_then (map_py (brief_line P) items) (\<lambda>lines. Inr (join [CHR 0x0A] lines))
      else if output_format = ''detailed'' then
        and_then (map_py (detailed_lines P) items) (\<lambda>blocks. Inr (join [CHR 0x0A] (concat blocks)))
      else
        and_then (map_py (table_row P) items) (\<lambda>rows. Inr (join [CHR 0x0A] (table_header @ rows))))"


section \<open>Example records\<close>

text \<open>
  Records of the shape the search endpoint returns, used to evaluate the functions:
  one last visited in January 2023, one in December 2024, one never visited, and one
  whose last visit is written in the bracketed millisecond encoding that the refresh
  fields use.
\<close>

definition item_stale :: json where
  "item_stale = JObj
     [(''displayName'', JStr ''Sales''), (''workspaceName'', JStr ''Finance''),
      (''lastVisitedTimeUTC'', JStr ''2023-01-01T08:30:00''),
      (''artifact'', JObj [(''storageMode'', JInt 1),
                          (''sharedFromEnterpriseCapacitySku'', JStr ''F64'')])]"

definition item_recent :: json where
  "item_recent = JObj
     [(''displayName'', JStr ''Budget''), (''workspaceName'', JStr ''Finance''),
      (''lastVisitedTimeUTC'', JStr ''2024-12-01T10:00:00''),
      (''artifact'', JObj [(''directLakeMode'', JBool True), (''storageMode'', JInt 2)])]"

definition item_never :: json where
  "item_never = JObj [(''displayName'', JStr ''Archive''), (''workspaceName'', JStr ''Finance'')]"

definition item_odata :: json where
  "item_odata = JObj
     [(''displayName'', JStr ''Legacy''), (''workspaceName'', JStr ''Operations''),
      (''lastVisitedTimeUTC'', JStr ''/Date(1700000000000)/'')]"


section \<open>Properties of the search client\<close>





lemma regions_hosts_nonempty: "map_of REGIONS region = Some host \<Longrightarrow> host \<noteq> []"
  by (auto simp: REGIONS_def split: if_splits)

text \<open>
  C1. \<^verbatim>\<open>search_datahub\<close> returns a dictionary in every case. For a region key outside
  \<open>REGIONS\<close> it is the failure dictionary with the "Unknown region" message, and no request
  has been issued. For a known region exactly one request is issued; a response with a
  status other than 200, a timeout and any other exception of the transport each give
  the failure dictionary with their message. In all cases the entry \<^verbatim>\<open>success\<close> is a
  boolean, and where it is false the entry \<^verbatim>\<open>error\<close> is a text.
\<close>

theorem search_datahub_never_raises:
  "(map_of REGIONS region = None \<longrightarrow>
      search_datahub post token item_types region workspace_id page_size page_number =
        (JObj [(''success'', JBool False),
               (''error'', JStr (''Unknown region: '' @ region
                                  @ ''. Use --list-regions to see options.''))], [])) \<and>
   (\<forall>host. map_of REGIONS region = Some host \<longrightarrow>
      (let rq = build_request host token item_types workspace_id page_size page_number;
           out = search_datahub post token item_types region workspace_id page_size page_number
       in snd out = [rq] \<and>
          (\<forall>status_code body parsed.
             post rq = Response status_code body parsed \<and> status_code \<noteq> 200 \<longrightarrow>
             fst out = JObj [(''success'', JBool False),
                             (''error'', JStr (''HTTP '' @ str_int status_code @ '': '' @ take 200 body)),
                             (''region'', JStr region)]) \<and>
          (post rq = Raises RequestsTimeout \<longrightarrow>
             fst out = JObj [(''success'', JBool False),
                             (''error'', JStr ''Request timed out (60s)''),
                             (''region'', JStr region)]) \<and>
          (\<forall>msg. post rq = Raises (OtherException msg) \<longrightarrow>
             fst out = JObj [(''success'', JBool False), (''error'', JStr msg),
                             (''region'', JStr region)]))) \<and>
   (\<exists>ok. dict_get (fst (search_datahub post token item_types region workspace_id page_size page_number))
             ''success'' JNull = Inr (JBool ok) \<and>
         (\<not> ok \<longrightarrow>
            (\<exists>msg. dict_get (fst (search_datahub post token item_types region workspace_id
                                    page_size page_number)) ''error'' JNull = Inr (JStr msg))))"
proof (intro conjI allI impI)
  assume "map_of REGIONS region = None"
  then show "search_datahub post token item_types region workspace_id page_size page_number =
        (JObj [(''success'', JBool False),
               (''error'', JStr (''Unknown region: '' @ region
                                  @ ''. Use --list-regions to see options.''))], [])"
    by (simp add: search_datahub_def)
next
  fix host assume h: "map_of REGIONS region = Some host"
  then have ne: "host \<noteq> []" by (rule regions_hosts_nonempty)
  show "let rq = build_request host token item_types workspace_id page_size page_number;
           out = search_datahub post token item_types region workspace_id page_size page_number
       in snd out = [rq] \<and>
          (\<forall>status_code body parsed.
             post rq = Response status_code body parsed \<and> status_code \<noteq> 200 \<longrightarrow>
             fst out = JObj [(''success'', JBool False),
                             (''error'', JStr (''HTTP '' @ str_int status_code @ '': '' @ take 200 body)),
                             (''region'', JStr region)]) \<and>
          (post rq = Raises RequestsTimeout \<longrightarrow>
             fst out = JObj [(''success'', JBool False),
                             (''error'', JStr ''Request timed out (60s)''),
                             (''region'', JStr region)]) \<and>
          (\<forall>msg. post rq = Raises (OtherException msg) \<longrightarrow>
             fst out = JObj [(''success'', JBool False), (''error'', JStr msg),
                             (''region'', JStr region)])"
    using h ne
    by (auto simp: search_datahub_def search_try_def Let_def
             split: sum.splits raised.splits http_reply.splits)
next
  show "\<exists>ok. dict_get (fst (search_datahub post token item_types region workspace_id page_size page_number))
             ''success'' JNull = Inr (JBool ok) \<and>
         (\<not> ok \<longrightarrow>
            (\<exists>msg. dict_get (fst (search_datahub post token item_types region workspace_id
                                    page_size page_number)) ''error'' JNull = Inr (JStr msg)))"
    by (auto simp: search_datahub_def search_try_def Let_def
             split: sum.splits raised.splits http_reply.splits option.splits)
qed

theorem search_datahub_never_raises_witness:
  "map_of REGIONS ''atlantis'' = None \<and>
   search_datahub (\<lambda>_. Raises RequestsTimeout) ''tok'' [''Model''] ''atlantis'' None 100 1 =
     (JObj [(''success'', JBool False),
            (''error'', JStr ''Unknown region: atlantis. Use --list-regions to see options.'')], []) \<and>
   map_of REGIONS ''uk-south'' = Some ''wabi-uk-south-e-primary-redirect.analysis.windows.net'' \<and>
   fst (search_datahub (\<lambda>_. Response 503 ''Service Unavailable'' (Inl (OtherException ''no JSON'')))
          ''tok'' [''Model''] ''uk-south'' None 100 1) =
     JObj [(''success'', JBool False), (''error'', JStr ''HTTP 503: Service Unavailable''),
           (''region'', JStr ''uk-south'')] \<and>
   fst (search_datahub (\<lambda>_. Raises RequestsTimeout) ''tok'' [''Model''] ''uk-south'' None 100 1) =
     JObj [(''success'', JBool False), (''error'', JStr ''Request timed out (60s)''),
           (''region'', JStr ''uk-south'')] \<and>
   fst (search_datahub (\<lambda>_. Raises (OtherException ''Connection refused'')) ''tok'' [''Model'']
          ''uk-south'' None 100 1) =
     JObj [(''success'', JBool False), (''error'', JStr ''Connection refused''),
           (''region'', JStr ''uk-south'')]"
proof -
  have r1: "map_of REGIONS ''atlantis'' = None" by (simp add: REGIONS_def)
  have r2: "map_of REGIONS ''uk-south'' = Some ''wabi-uk-south-e-primary-redirect.analysis.windows.net''"
    by (simp add: REGIONS_def)
  have n: "str_int 503 = ''503''" by code_simp
  note a = search_datahub_never_raises [where region = "''atlantis''"
      and post = "\<lambda>_. Raises RequestsTimeout" and token = "''tok''" and item_types = "[''Model'']"
      and workspace_id = None and page_size = 100 and page_number = 1]
  note b = search_datahub_never_raises [where region = "''uk-south''"
      and post = "\<lambda>_. Response 503 ''Service Unavailable'' (Inl (OtherException ''no JSON''))"
      and token = "''tok''" and item_types = "[''Model'']"
      and workspace_id = None and page_size = 100 and page_number = 1]
  note c = search_datahub_never_raises [where region = "''uk-south''"
      and post = "\<lambda>_. Raises RequestsTimeout" and token = "''tok''" and item_types = "[''Model'']"
      and workspace_id = None and page_size = 100 and page_number = 1]
  note d = search_datahub_never_raises [where region = "''uk-south''"
      and post = "\<lambda>_. Raises (OtherException ''Connection refused'')" and token = "''tok''"
      and item_types = "[''Model'']"
      and workspace_id = None and page_size = 100 and page_number = 1]
  show ?thesis using a b c d r1 r2 n by (simp add: Let_def)
qed

text \<open>
  C10. When the transport answers with status 200 and a body that parses to a value that
  is not a list, \<^verbatim>\<open>search_datahub\<close> reports success with no items and the count 0.
\<close>

theorem search_datahub_non_list_body:
  assumes "map_of REGIONS region = Some host"
    and "post (build_request host token item_types workspace_id page_size page_number)
           = Response 200 body (Inr v)"
    and "\<And>xs. v \<noteq> JArr xs"
  shows "fst (search_datahub post token item_types region workspace_id page_size page_number) =
           JObj [(''success'', JBool True), (''items'', JArr []), (''count'', JInt 0),
                 (''region'', JStr region), (''host'', JStr host)]"
  using assms regions_hosts_nonempty [OF assms(1)]
  by (cases v) (auto simp: search_datahub_def search_try_def Let_def)

theorem search_datahub_non_list_body_witness:
  "map_of REGIONS ''west-europe'' = Some ''wabi-west-europe-e-primary-redirect.analysis.windows.net'' \<and>
   fst (search_datahub (\<lambda>_. Response 200 ''{}'' (Inr (JObj [])))
          ''tok'' [''Model''] ''west-europe'' None 100 1) =
     JObj [(''success'', JBool True), (''items'', JArr []), (''count'', JInt 0),
           (''region'', JStr ''west-europe''),
           (''host'', JStr ''wabi-west-europe-e-primary-redirect.analysis.windows.net'')]"
proof -
  have r: "map_of REGIONS ''west-europe'' = Some ''wabi-west-europe-e-primary-redirect.analysis.windows.net''"
    by (simp add: REGIONS_def)
  show ?thesis
    using r search_datahub_non_list_body [OF r, where v = "JObj []"
        and post = "\<lambda>_. Response 200 ''{}'' (Inr (JObj []))"
        and token = "''tok''" and item_types = "[''Model'']" and workspace_id = None
        and page_size = 100 and page_number = 1 and body = "''{}''"]
    by simp
qed

text \<open>The page size sent is capped at 1000, whatever the caller asks for.\<close>

theorem page_size_clamped:
  "dict_get (req_json (build_request host token item_types workspace_id page_size page_number))
       ''pageSize'' JNull = Inr (JInt (min page_size 1000)) \<and>
   min page_size 1000 \<le> 1000"
  by (simp add: build_request_def)


section \<open>Properties of the date decoder\<close>

lemma strptime_ymd_error: "strptime_ymd s = Inl e \<Longrightarrow> e = ValueError"
  by (induction s rule: strptime_ymd.induct)
     (auto simp: make_date_def split: if_splits option.splits list.splits prod.splits)

lemma parse_odata_date_no_ValueError: "parse_odata_date P v \<noteq> Inl ValueError"
  by (auto simp: parse_odata_date_def split: json.splits sum.splits pyexc.splits dest: strptime_ymd_error)

text \<open>
  The examples of the specification: both encodings decode, and the empty text and a
  bracketed text that is not a number are unparseable.
\<close>

lemma parse_odata_date_examples:
  "parse_odata_date utc_platform (JStr ''/Date(1700000000000)/'') =
     Inr (Some \<lparr>year = 2023, month = 11, day = 14, hour = 22, minute = 13, second = 20,
                 microsecond = 0\<rparr>) \<and>
   parse_odata_date utc_platform (JStr ''2023-11-14T10:00:00'') = Inr (Some (midnight 2023 11 14)) \<and>
   parse_odata_date utc_platform (JStr ''/Date(abc)/'') = Inr None \<and>
   parse_odata_date utc_platform (JStr []) = Inr None \<and>
   parse_odata_date utc_platform (JStr ''yesterday'') = Inr None"
  by code_simp

text \<open>
  C3. \<^verbatim>\<open>_parse_odata_date\<close> is not total on text. It catches \<^verbatim>\<open>ValueError\<close> and \<^verbatim>\<open>OSError\<close>
  around the conversion of the milliseconds, but the division \<^verbatim>\<open>ms / 1000\<close> raises
  \<^verbatim>\<open>OverflowError\<close> once the quotient exceeds the floats, and nothing catches it: for
  the bracketed number of 320 nines the function raises.
\<close>

theorem parse_odata_date_overflow:
  "parse_odata_date utc_platform (JStr (''/Date('' @ replicate 320 (CHR ''9'') @ '')/''))
     = Inl OverflowError"
  by code_simp

text \<open>
  What does hold on text: the empty text, a text that is in neither encoding, and a
  bracketed text that is not an integer are unparseable; a bracketed integer beyond the
  floats raises \<^verbatim>\<open>OverflowError\<close>; and on a platform whose conversion raises nothing but
  \<^verbatim>\<open>OverflowError\<close>, \<^verbatim>\<open>OSError\<close> and \<^verbatim>\<open>ValueError\<close>, no other exception than
  \<^verbatim>\<open>OverflowError\<close> leaves the function.
\<close>

theorem parse_odata_date_on_text:
  "parse_odata_date P (JStr []) = Inr None \<and>
   (\<not> (startswith s ''/Date('' \<and> endswith s '')/'') \<and> strptime_ymd (take 10 s) = Inl ValueError
      \<longrightarrow> parse_odata_date P (JStr s) = Inr None) \<and>
   (startswith s ''/Date('' \<and> endswith s '')/'' \<and>
      py_int (int_max_str_digits P) (drop 6 (butlast (butlast s))) = Inl ValueError
      \<longrightarrow> parse_odata_date P (JStr s) = Inr None) \<and>
   (\<forall>ms. startswith s ''/Date('' \<and> endswith s '')/'' \<and>
      py_int (int_max_str_digits P) (drop 6 (butlast (butlast s))) = Inr ms \<and>
      true_divide_overflows ms
      \<longrightarrow> parse_odata_date P (JStr s) = Inl OverflowError) \<and>
   (\<forall>e. (\<forall>ms e'. fromtimestamp_ms P ms = Inl e' \<longrightarrow> e' \<in> set [OverflowError, OSError, ValueError]) \<and>
        parse_odata_date P (JStr s) = Inl e
      \<longrightarrow> e = OverflowError)"
proof (intro conjI allI impI)
  show "parse_odata_date P (JStr []) = Inr None" by (simp add: parse_odata_date_def)
next
  assume "\<not> (startswith s ''/Date('' \<and> endswith s '')/'') \<and> strptime_ymd (take 10 s) = Inl ValueError"
  then show "parse_odata_date P (JStr s) = Inr None"
    by (auto simp: parse_odata_date_def)
next
  assume "startswith s ''/Date('' \<and> endswith s '')/'' \<and>
      py_int (int_max_str_digits P) (drop 6 (butlast (butlast s))) = Inl ValueError"
  then show "parse_odata_date P (JStr s) = Inr None"
    by (auto simp: parse_odata_date_def and_then_def)
next
  fix ms
  assume "startswith s ''/Date('' \<and> endswith s '')/'' \<and>
      py_int (int_max_str_digits P) (drop 6 (butlast (butlast s))) = Inr ms \<and>
      true_divide_overflows ms"
  then show "parse_odata_date P (JStr s) = Inl OverflowError"
    by (auto simp: parse_odata_date_def and_then_def datetime_of_ms_def)
next
  fix e
  assume a: "(\<forall>ms e'. fromtimestamp_ms P ms = Inl e' \<longrightarrow> e' \<in> set [OverflowError, OSError, ValueError]) \<and>
        parse_odata_date P (JStr s) = Inl e"
  then have only: "\<And>ms e'. fromtimestamp_ms P ms = Inl e' \<Longrightarrow> e' \<in> set [OverflowError, OSError, ValueError]"
    and p: "parse_odata_date P (JStr s) = Inl e" by blast+
  have pi: "py_int n t = Inl x \<Longrightarrow> x = ValueError" for n t x
    by (auto simp: py_int_def Let_def split: if_splits)
  have dm: "datetime_of_ms P ms = Inl x \<Longrightarrow> x \<in> set [OverflowError, OSError, ValueError]" for ms x
    using only [of ms x] by (auto simp: datetime_of_ms_def split: if_splits)
  from p have ne: "s \<noteq> []" by (auto simp: parse_odata_date_def)
  show "e = OverflowError"
  proof (cases "startswith s ''/Date('' \<and> endswith s '')/''")
    case False
    with p ne show ?thesis
      by (auto simp: parse_odata_date_def split: sum.splits pyexc.splits dest: strptime_ymd_error)
  next
    case True
    show ?thesis
    proof (cases "py_int (int_max_str_digits P) (drop 6 (butlast (butlast s)))")
      case (Inl x)
      with pi have "x = ValueError" by blast
      with Inl True p ne show ?thesis by (simp add: parse_odata_date_def and_then_def)
    next
      case (Inr ms)
      show ?thesis
      proof (cases "datetime_of_ms P ms")
        case (Inl x)
        from dm [OF Inl] have "x = OverflowError \<or> x = OSError \<or> x = ValueError" by simp
        with Inl Inr True p ne show ?thesis
          by (auto simp: parse_odata_date_def and_then_def)
      next
        case (Inr d)
        with \<open>py_int (int_max_str_digits P) (drop 6 (butlast (butlast s))) = Inr ms\<close> True p ne
        show ?thesis by (simp add: parse_odata_date_def and_then_def)
      qed
    qed
  qed
qed

theorem parse_odata_date_on_text_witness:
  "\<not> (startswith ''next week'' ''/Date('' \<and> endswith ''next week'' '')/'') \<and>
   strptime_ymd (take 10 ''next week'') = Inl ValueError \<and>
   parse_odata_date utc_platform (JStr ''next week'') = Inr None \<and>
   startswith ''/Date(abc)/'' ''/Date('' \<and> endswith ''/Date(abc)/'' '')/'' \<and>
   py_int (int_max_str_digits utc_platform) (drop 6 (butlast (butlast ''/Date(abc)/''))) = Inl ValueError \<and>
   parse_odata_date utc_platform (JStr ''/Date(abc)/'') = Inr None"
proof -
  have a: "\<not> (startswith ''next week'' ''/Date('' \<and> endswith ''next week'' '')/'')"
    "strptime_ymd (take 10 ''next week'') = Inl ValueError"
    by code_simp+
  have b: "startswith ''/Date(abc)/'' ''/Date('' \<and> endswith ''/Date(abc)/'' '')/''"
    "py_int (int_max_str_digits utc_platform) (drop 6 (butlast (butlast ''/Date(abc)/''))) = Inl ValueError"
    by code_simp+
  from parse_odata_date_on_text [of utc_platform "''next week''"] a
  have "parse_odata_date utc_platform (JStr ''next week'') = Inr None" by blast
  moreover
  from parse_odata_date_on_text [of utc_platform "''/Date(abc)/''"] b
  have "parse_odata_date utc_platform (JStr ''/Date(abc)/'') = Inr None" by blast
  ultimately show ?thesis using a b by blast
qed


section \<open>Properties of the filters\<close>

lemma and_then_Inr:
  "and_then r k = Inr y \<Longrightarrow> \<exists>x. r = Inr x \<and> k x = Inr y"
  by (cases r) (simp_all add: and_then_def)

lemma filter_py_subseq: "filter_py cond xs = Inr ys \<Longrightarrow> subseq ys xs"
proof (induction xs arbitrary: ys)
  case Nil
  then show ?case by simp
next
  case (Cons x xs)
  from Cons.prems obtain b zs where b: "cond x = Inr b" and zs: "filter_py cond xs = Inr zs"
    and ys: "ys = (if b then x # zs else zs)"
    by (auto split: sum.splits)
  from Cons.IH [OF zs] have "subseq zs xs" .
  with ys show ?case by (cases b) auto
qed

lemma keep_if_subseq: "keep_if cond r = Inr r' \<Longrightarrow> subseq (fst r') (fst r)"
  by (auto simp: keep_if_def dest!: and_then_Inr dest: filter_py_subseq)

lemma date_filter_subseq: "date_filter cond arg r = Inr r' \<Longrightarrow> subseq (fst r') (fst r)"
  by (auto simp: date_filter_def and_then_def split: sum.splits pyexc.splits dest: filter_py_subseq)

lemma when_given_subseq:
  assumes "when_given arg block r = Inr r'"
    and "\<And>s. block s r = Inr r' \<Longrightarrow> subseq (fst r') (fst r)"
  shows "subseq (fst r') (fst r)"
  using assms by (auto simp: when_given_def split: option.splits if_splits)

lemma when_given_keep_if_subseq:
  "when_given arg (\<lambda>f. keep_if (c f)) r = Inr r' \<Longrightarrow> subseq (fst r') (fst r)"
  by (erule when_given_subseq) (rule keep_if_subseq)

lemma when_given_date_filter_subseq:
  "when_given arg (date_filter c) r = Inr r' \<Longrightarrow> subseq (fst r') (fst r)"
  by (erule when_given_subseq) (rule date_filter_subseq)

text \<open>
  C2. Whatever the filter arguments, the list that \<^verbatim>\<open>apply_filters\<close> returns is drawn from
  its input: it is a subsequence of the input list (the records kept, in their order),
  so every record of the output is a record of the input.
\<close>

theorem apply_filters_subset:
  assumes "apply_filters P items a = Inr (ys, err)"
  shows "subseq ys items \<and> set ys \<subseteq> set items"
proof -
  from assms obtain r1 r2 r3 r4 r5 r6 r7 r8 r9 r10 where
    s1: "when_given (name_filter a) (\<lambda>f. keep_if (name_cond (str_lower f))) (items, []) = Inr r1" and
    s2: "when_given (workspace_filter a) (\<lambda>f. keep_if (workspace_cond (str_lower f))) r1 = Inr r2" and
    s3: "when_given (owner_filter a) (\<lambda>f. keep_if (owner_cond (str_lower f))) r2 = Inr r3" and
    s4: "when_given (visited_since a) (date_filter visited_since_cond) r3 = Inr r4" and
    s5: "when_given (not_visited_since a) (date_filter not_visited_since_cond) r4 = Inr r5" and
    s6: "when_given (refreshed_since a) (date_filter (refreshed_since_cond P)) r5 = Inr r6" and
    s7: "when_given (not_refreshed_since a) (date_filter (not_refreshed_since_cond P)) r6 = Inr r7" and
    s8: "when_given (updated_since a) (date_filter (updated_since_cond P)) r7 = Inr r8" and
    s9: "when_given (not_updated_since a) (date_filter (not_updated_since_cond P)) r8 = Inr r9" and
    s10: "when_given (storage_mode a) (\<lambda>f. keep_if (matches_storage (str_lower f))) r9 = Inr r10" and
    s11: "when_given (capacity_sku a) (\<lambda>f. keep_if (sku_cond (str_upper f))) r10 = Inr (ys, err)"
    unfolding apply_filters_def by (blast dest!: and_then_Inr)
  note tr = subseq_order.trans
  have c1: "subseq (fst r1) items"
    using when_given_keep_if_subseq [OF s1] by simp
  have c2: "subseq (fst r2) items"
    using when_given_keep_if_subseq [OF s2] c1 by (rule tr)
  have c3: "subseq (fst r3) items"
    using when_given_keep_if_subseq [OF s3] c2 by (rule tr)
  have c4: "subseq (fst r4) items"
    using when_given_date_filter_subseq [OF s4] c3 by (rule tr)
  have c5: "subseq (fst r5) items"
    using when_given_date_filter_subseq [OF s5] c4 by (rule tr)
  have c6: "subseq (fst r6) items"
    using when_given_date_filter_subseq [OF s6] c5 by (rule tr)
  have c7: "subseq (fst r7) items"
    using when_given_date_filter_subseq [OF s7] c6 by (rule tr)
  have c8: "subseq (fst r8) items"
    using when_given_date_filter_subseq [OF s8] c7 by (rule tr)
  have c9: "subseq (fst r9) items"
    using when_given_date_filter_subseq [OF s9] c8 by (rule tr)
  have c10: "subseq (fst r10) items"
    using when_given_keep_if_subseq [OF s10] c9 by (rule tr)
  have "subseq (fst (ys, err)) items"
    using when_given_keep_if_subseq [OF s11] c10 by (rule tr)
  then have e: "subseq ys items" by simp
  then have "set ys \<subseteq> set items"
    by (auto dest: list_emb_set)
  with e show ?thesis by simp
qed

theorem apply_filters_subset_witness:
  "apply_filters utc_platform [item_stale, item_recent, item_never]
       (no_filters\<lparr>name_filter := Some ''s'', not_visited_since := Some ''2024-06-01''\<rparr>)
     = Inr ([item_stale], []) \<and>
   subseq [item_stale] [item_stale, item_recent, item_never] \<and>
   set [item_stale] \<subseteq> set [item_stale, item_recent, item_never]"
proof -
  have e: "apply_filters utc_platform [item_stale, item_recent, item_never]
       (no_filters\<lparr>name_filter := Some ''s'', not_visited_since := Some ''2024-06-01''\<rparr>)
     = Inr ([item_stale], [])"
    by code_simp
  from e apply_filters_subset [OF e] show ?thesis by blast
qed

lemma matches_storage_artifact:
  assumes "dict_get item ''artifact'' (JObj []) = Inr (JObj art)"
  shows "matches_storage mode item =
     Inr (mode = ''import'' \<and> py_eq (case map_of art ''storageMode'' of Some v \<Rightarrow> v | None \<Rightarrow> JNull) (JInt 1)
        \<or> mode = ''directquery'' \<and> py_eq (case map_of art ''storageMode'' of Some v \<Rightarrow> v | None \<Rightarrow> JNull) (JInt 2)
        \<or> mode = ''directlake'' \<and> truthy (case map_of art ''directLakeMode'' of Some v \<Rightarrow> v | None \<Rightarrow> JBool False))"
  using assms by (simp add: matches_storage_def and_then_def)

text \<open>
  C5. For every record, the storage-mode test \<^verbatim>\<open>matches_storage\<close> holds exactly when the
  record has an artifact (a dictionary, or the default when the entry is absent) and the
  mode is \<^verbatim>\<open>import\<close> with the artifact's \<^verbatim>\<open>storageMode\<close> equal to 1, or \<^verbatim>\<open>directquery\<close> with
  it equal to 2, or \<^verbatim>\<open>directlake\<close> with the artifact's \<^verbatim>\<open>directLakeMode\<close> flag set; any other
  mode matches no record. The mode compared is the filter argument in lower case, and
  the filter keeps a record exactly when the test holds for it.
\<close>

theorem storage_mode_filter:
  "(matches_storage mode item = Inr True) =
     (\<exists>art. dict_get item ''artifact'' (JObj []) = Inr (JObj art) \<and>
        (mode = ''import'' \<and>
           py_eq (case map_of art ''storageMode'' of Some v \<Rightarrow> v | None \<Rightarrow> JNull) (JInt 1)
         \<or> mode = ''directquery'' \<and>
           py_eq (case map_of art ''storageMode'' of Some v \<Rightarrow> v | None \<Rightarrow> JNull) (JInt 2)
         \<or> mode = ''directlake'' \<and>
           truthy (case map_of art ''directLakeMode'' of Some v \<Rightarrow> v | None \<Rightarrow> JBool False))) \<and>
   (mode \<notin> set [''import'', ''directquery'', ''directlake''] \<longrightarrow>
      matches_storage mode item \<noteq> Inr True) \<and>
   (s \<noteq> [] \<and> (\<exists>b. matches_storage (str_lower s) item = Inr b) \<longrightarrow>
      apply_filters P [item] (no_filters\<lparr>storage_mode := Some s\<rparr>) =
        Inr (if matches_storage (str_lower s) item = Inr True then [item] else [], []))"
proof (intro conjI impI)
  show "(matches_storage mode item = Inr True) =
     (\<exists>art. dict_get item ''artifact'' (JObj []) = Inr (JObj art) \<and>
        (mode = ''import'' \<and>
           py_eq (case map_of art ''storageMode'' of Some v \<Rightarrow> v | None \<Rightarrow> JNull) (JInt 1)
         \<or> mode = ''directquery'' \<and>
           py_eq (case map_of art ''storageMode'' of Some v \<Rightarrow> v | None \<Rightarrow> JNull) (JInt 2)
         \<or> mode = ''directlake'' \<and>
           truthy (case map_of art ''directLakeMode'' of Some v \<Rightarrow> v | None \<Rightarrow> JBool False)))"
  proof (cases "dict_get item ''artifact'' (JObj [])")
    case (Inl e)
    then show ?thesis by (simp add: matches_storage_def and_then_def)
  next
    case (Inr artifact)
    show ?thesis
    proof (cases artifact)
      case (JObj art)
      with Inr matches_storage_artifact [of item art mode] show ?thesis by auto
    qed (use Inr in \<open>simp_all add: matches_storage_def and_then_def\<close>)
  qed
  then show "matches_storage mode item \<noteq> Inr True"
    if "mode \<notin> set [''import'', ''directquery'', ''directlake'']"
    using that by auto
next
  assume a: "s \<noteq> [] \<and> (\<exists>b. matches_storage (str_lower s) item = Inr b)"
  then obtain b where b: "matches_storage (str_lower s) item = Inr b" by blast
  from a have "apply_filters P [item] (no_filters\<lparr>storage_mode := Some s\<rparr>) =
          keep_if (matches_storage (str_lower s)) ([item], [])"
    by (simp add: apply_filters_def no_filters_def when_given_def and_then_def split: sum.splits)
  with b show "apply_filters P [item] (no_filters\<lparr>storage_mode := Some s\<rparr>) =
        Inr (if matches_storage (str_lower s) item = Inr True then [item] else [], [])"
    by (simp add: keep_if_def and_then_def)
qed

theorem storage_mode_filter_witness:
  "dict_get item_recent ''artifact'' (JObj []) =
     Inr (JObj [(''directLakeMode'', JBool True), (''storageMode'', JInt 2)]) \<and>
   matches_storage ''directlake'' item_recent = Inr True \<and>
   apply_filters utc_platform [item_recent] (no_filters\<lparr>storage_mode := Some ''directlake''\<rparr>)
     = Inr ([item_recent], []) \<and>
   dict_get item_stale ''artifact'' (JObj []) =
     Inr (JObj [(''storageMode'', JInt 1), (''sharedFromEnterpriseCapacitySku'', JStr ''F64'')]) \<and>
   matches_storage ''directlake'' item_stale = Inr False \<and>
   apply_filters utc_platform [item_stale] (no_filters\<lparr>storage_mode := Some ''directlake''\<rparr>)
     = Inr ([], []) \<and>
   matches_storage ''dual'' item_recent \<noteq> Inr True"
proof -
  have a: "dict_get item_recent ''artifact'' (JObj []) =
     Inr (JObj [(''directLakeMode'', JBool True), (''storageMode'', JInt 2)])"
    by (simp add: item_recent_def)
  have b: "dict_get item_stale ''artifact'' (JObj []) =
     Inr (JObj [(''storageMode'', JInt 1), (''sharedFromEnterpriseCapacitySku'', JStr ''F64'')])"
    by (simp add: item_stale_def)
  have l: "str_lower ''directlake'' = ''directlake''"
    by (simp add: str_lower_def lower_char_def)
  have s: "matches_storage ''directlake'' item_stale = Inr False" by code_simp
  note r = storage_mode_filter [where mode = "''directlake''" and item = item_recent
      and s = "''directlake''" and P = utc_platform]
  note t = storage_mode_filter [where mode = "''directlake''" and item = item_stale
      and s = "''directlake''" and P = utc_platform]
  note d = storage_mode_filter [where mode = "''dual''" and item = item_recent
      and s = "''dual''" and P = utc_platform]
  from r a have m: "matches_storage ''directlake'' item_recent = Inr True" by simp
  with r l have "apply_filters utc_platform [item_recent]
      (no_filters\<lparr>storage_mode := Some ''directlake''\<rparr>) = Inr ([item_recent], [])" by auto
  moreover from t l s have "apply_filters utc_platform [item_stale]
      (no_filters\<lparr>storage_mode := Some ''directlake''\<rparr>) = Inr ([], [])" by auto
  moreover from d have "matches_storage ''dual'' item_recent \<noteq> Inr True" by simp
  ultimately show ?thesis using a b m s by simp
qed

text \<open>
  The example of the specification for the not-visited-since filter: with the boundary
  2024-06-01 the record visited in January 2023 is kept, the one visited in December 2024
  and the one never visited are dropped.
\<close>

lemma not_visited_since_example:
  "apply_filters utc_platform [item_stale, item_recent, item_never]
       (no_filters\<lparr>not_visited_since := Some ''2024-06-01''\<rparr>) = Inr ([item_stale], [])"
  by code_simp

text \<open>
  C4. The not-visited-since filter does not keep exactly the records visited before the
  boundary on every list. Its handler for a malformed boundary also catches the
  \<^verbatim>\<open>ValueError\<close> that \<^verbatim>\<open>strptime\<close> raises on a record whose \<^verbatim>\<open>lastVisitedTimeUTC\<close> does not
  start with a calendar date. With one such record in the list the comprehension is
  abandoned, the warning blames the boundary, and every record stays, the one never
  visited and the one visited after the boundary included.
\<close>

theorem not_visited_since_abandoned:
  "apply_filters utc_platform [item_stale, item_recent, item_never, item_odata]
       (no_filters\<lparr>not_visited_since := Some ''2024-06-01''\<rparr>) =
     Inr ([item_stale, item_recent, item_never, item_odata],
          [''Warning: Invalid date format '' @ [CHR 0x27] @ ''2024-06-01'' @ [CHR 0x27]
             @ '', use YYYY-MM-DD''])"
  by code_simp

text \<open>
  C6. Filtering twice is not always filtering once. The visited-since filter is abandoned
  on the first pass because of the record with the malformed visit date; the capacity
  filter then drops that record; on the second pass the visited-since filter runs and
  drops the record that the first pass kept.
\<close>

theorem apply_filters_twice_differs:
  "apply_filters utc_platform [item_stale, item_odata]
       (no_filters\<lparr>visited_since := Some ''2024-06-01'', capacity_sku := Some ''F64''\<rparr>) =
     Inr ([item_stale], [date_warning ''2024-06-01'']) \<and>
   apply_filters utc_platform [item_stale]
       (no_filters\<lparr>visited_since := Some ''2024-06-01'', capacity_sku := Some ''F64''\<rparr>) =
     Inr ([], [])"
  by code_simp

subsection \<open>Lists whose visit dates are well formed\<close>

text \<open>
  The two departures above have one cause, a record whose \<^verbatim>\<open>lastVisitedTimeUTC\<close> is text
  that does not start with a calendar date. On lists without such a record the filters
  behave as intended.
\<close>

lemma dict_get_error: "dict_get x k d = Inl e \<Longrightarrow> e = AttributeError"
  by (cases x) auto

lemma and_then_Inl:
  "and_then r k = Inl e \<Longrightarrow> r = Inl e \<or> (\<exists>x. r = Inr x \<and> k x = Inl e)"
  by (cases r) (simp_all add: and_then_def)

lemma get_refresh_datetime_no_ValueError: "get_refresh_datetime P item \<noteq> Inl ValueError"
proof
  assume a: "get_refresh_datetime P item = Inl ValueError"
  then show False
    unfolding get_refresh_datetime_def
    by (auto dest!: and_then_Inl dict_get_error split: if_splits simp: parse_odata_date_no_ValueError)
qed

lemma modified_date_no_ValueError: "modified_date P item \<noteq> Inl ValueError"
  unfolding modified_date_def
  by (auto dest!: and_then_Inl dict_get_error simp: parse_odata_date_no_ValueError)

lemma refresh_conds_no_ValueError:
  "refreshed_since_cond P d item \<noteq> Inl ValueError"
  "not_refreshed_since_cond P d item \<noteq> Inl ValueError"
  "updated_since_cond P d item \<noteq> Inl ValueError"
  "not_updated_since_cond P d item \<noteq> Inl ValueError"
  unfolding refreshed_since_cond_def not_refreshed_since_cond_def
    updated_since_cond_def not_updated_since_cond_def
  using get_refresh_datetime_no_ValueError [of P item] modified_date_no_ValueError [of P item]
  by (auto dest!: and_then_Inl split: option.splits)

lemma visited_conds_no_ValueError:
  assumes "visited_date item \<noteq> Inl ValueError"
  shows "visited_since_cond d item \<noteq> Inl ValueError" "not_visited_since_cond d item \<noteq> Inl ValueError"
  using assms unfolding visited_since_cond_def not_visited_since_cond_def
  by (auto dest!: and_then_Inl split: option.splits)

lemma filter_py_all_true: "\<forall>z \<in> set zs. cond z = Inr True \<Longrightarrow> filter_py cond zs = Inr zs"
  by (induction zs) auto

lemma filter_py_kept: "filter_py cond xs = Inr ys \<Longrightarrow> \<forall>y \<in> set ys. cond y = Inr True"
proof (induction xs arbitrary: ys)
  case Nil
  then show ?case by simp
next
  case (Cons x xs)
  then show ?case by (auto split: sum.splits if_splits)
qed

lemma filter_py_Inl: "filter_py cond xs = Inl e \<Longrightarrow> \<exists>x \<in> set xs. cond x = Inl e"
proof (induction xs)
  case Nil
  then show ?case by simp
next
  case (Cons x xs)
  then show ?case by (auto split: sum.splits)
qed

lemma keep_if_fixed:
  assumes "keep_if cond (xs, e) = Inr (ys, e')" and "set zs \<subseteq> set ys"
  shows "e' = e \<and> keep_if cond (zs, e2) = Inr (zs, e2)"
proof -
  from assms(1) have f: "filter_py cond xs = Inr ys" and e: "e' = e"
    by (auto simp: keep_if_def and_then_def split: sum.splits)
  from filter_py_kept [OF f] assms(2) have "\<forall>z \<in> set zs. cond z = Inr True" by auto
  then have "filter_py cond zs = Inr zs" by (rule filter_py_all_true)
  with e show ?thesis by (simp add: keep_if_def and_then_def)
qed

lemma date_filter_fixed:
  assumes "date_filter cond arg (xs, e) = Inr (ys, e')"
    and "\<And>d x. x \<in> set xs \<Longrightarrow> cond d x \<noteq> Inl ValueError"
    and "set zs \<subseteq> set ys"
  shows "\<exists>w. e' = e @ w \<and> date_filter cond arg (zs, e2) = Inr (zs, e2 @ w)"
proof (cases "strptime_ymd arg")
  case (Inl err)
  then have "err = ValueError" by (rule strptime_ymd_error)
  with Inl assms(1) show ?thesis
    by (auto simp: date_filter_def and_then_def)
next
  case (Inr since_date)
  show ?thesis
  proof (cases "filter_py (cond since_date) xs")
    case (Inl err)
    from filter_py_Inl [OF Inl] assms(2) have "err \<noteq> ValueError" by auto
    with Inl Inr assms(1) show ?thesis
      by (cases err) (auto simp: date_filter_def and_then_def)
  next
    case (Inr kept)
    with \<open>strptime_ymd arg = Inr since_date\<close> assms(1) have k: "kept = ys" and e: "e' = e"
      by (auto simp: date_filter_def and_then_def)
    from filter_py_kept [OF Inr] k assms(3) have "\<forall>z \<in> set zs. cond since_date z = Inr True"
      by auto
    then have "filter_py (cond since_date) zs = Inr zs" by (rule filter_py_all_true)
    with \<open>strptime_ymd arg = Inr since_date\<close> e show ?thesis
      by (simp add: date_filter_def and_then_def)
  qed
qed

lemma when_given_keep_if_fixed:
  assumes "when_given arg (\<lambda>f. keep_if (c f)) (xs, e) = Inr (ys, e')" and "set zs \<subseteq> set ys"
  shows "\<exists>w. e' = e @ w \<and> when_given arg (\<lambda>f. keep_if (c f)) (zs, e2) = Inr (zs, e2 @ w)"
proof (cases "arg = None \<or> arg = Some []")
  case True
  with assms(1) show ?thesis by (auto simp: when_given_def)
next
  case False
  then obtain s where s: "arg = Some s" "s \<noteq> []" by auto
  with assms(1) have "keep_if (c s) (xs, e) = Inr (ys, e')" by (simp add: when_given_def)
  from keep_if_fixed [OF this assms(2), of e2] s show ?thesis by (simp add: when_given_def)
qed

lemma when_given_date_filter_fixed:
  assumes "when_given arg (date_filter cond) (xs, e) = Inr (ys, e')"
    and "\<And>d x. x \<in> set xs \<Longrightarrow> cond d x \<noteq> Inl ValueError"
    and "set zs \<subseteq> set ys"
  shows "\<exists>w. e' = e @ w \<and> when_given arg (date_filter cond) (zs, e2) = Inr (zs, e2 @ w)"
proof (cases "arg = None \<or> arg = Some []")
  case True
  with assms(1) show ?thesis by (auto simp: when_given_def)
next
  case False
  then obtain s where s: "arg = Some s" "s \<noteq> []" by auto
  with assms(1) have "date_filter cond s (xs, e) = Inr (ys, e')" by (simp add: when_given_def)
  from date_filter_fixed [OF this assms(2) assms(3), of e2] s show ?thesis
    by (simp add: when_given_def)
qed


lemma subseq_set: "subseq xs ys \<Longrightarrow> set xs \<subseteq> set ys"
  by (auto dest: list_emb_set)

text \<open>
  When every record of the list has a visit date that is absent, empty or well formed,
  the not-visited-since filter keeps exactly the records visited before a valid boundary.
\<close>

theorem not_visited_since_well_formed:
  assumes b: "strptime_ymd boundary = Inr since_date"
    and wf: "\<forall>item \<in> set items. \<exists>v. visited_date item = Inr v"
  shows "apply_filters P items (no_filters\<lparr>not_visited_since := Some boundary\<rparr>) =
           Inr (filter (\<lambda>item. \<exists>d. visited_date item = Inr (Some d) \<and> dt_lt d since_date) items, [])"
proof -
  from b have ne: "boundary \<noteq> []" by auto
  have "filter_py (not_visited_since_cond since_date) xs =
          Inr (filter (\<lambda>item. \<exists>d. visited_date item = Inr (Some d) \<and> dt_lt d since_date) xs)"
    if "\<forall>item \<in> set xs. \<exists>v. visited_date item = Inr v" for xs
    using that
  proof (induction xs)
    case Nil
    then show ?case by simp
  next
    case (Cons x xs)
    then obtain v where v: "visited_date x = Inr v" by auto
    with Cons show ?case
      by (cases v) (auto simp: not_visited_since_cond_def and_then_def)
  qed
  from this [OF wf] b ne show ?thesis
    by (simp add: apply_filters_def no_filters_def when_given_def and_then_def date_filter_def)
qed

theorem not_visited_since_well_formed_witness:
  "strptime_ymd ''2024-06-01'' = Inr (midnight 2024 6 1) \<and>
   visited_date item_stale = Inr (Some (midnight 2023 1 1)) \<and>
   visited_date item_recent = Inr (Some (midnight 2024 12 1)) \<and>
   visited_date item_never = Inr None \<and>
   apply_filters utc_platform [item_stale, item_recent, item_never]
       (no_filters\<lparr>not_visited_since := Some ''2024-06-01''\<rparr>) = Inr ([item_stale], [])"
proof -
  have b: "strptime_ymd ''2024-06-01'' = Inr (midnight 2024 6 1)" by code_simp
  have v: "visited_date item_stale = Inr (Some (midnight 2023 1 1))"
    "visited_date item_recent = Inr (Some (midnight 2024 12 1))"
    "visited_date item_never = Inr None"
    by code_simp+
  have lt: "dt_lt (midnight 2023 1 1) (midnight 2024 6 1)" "\<not> dt_lt (midnight 2024 12 1) (midnight 2024 6 1)"
    by code_simp+
  have wf: "\<forall>item \<in> set [item_stale, item_recent, item_never]. \<exists>v. visited_date item = Inr v"
    by (simp add: v)
  from not_visited_since_well_formed [OF b wf, of utc_platform] b v lt
  show ?thesis by simp
qed

text \<open>
  When no record of the list has a visit date that \<^verbatim>\<open>strptime\<close> refuses, filtering the
  result again with the same arguments returns the same list and the same warnings.
\<close>

theorem apply_filters_idempotent_well_formed:
  assumes run: "apply_filters P items a = Inr (ys, err)"
    and wf: "\<forall>item \<in> set items. visited_date item \<noteq> Inl ValueError"
  shows "apply_filters P ys a = Inr (ys, err)"
proof -
  from run obtain l1 e1 l2 e2 l3 e3 l4 e4 l5 e5 l6 e6 l7 e7 l8 e8 l9 e9 l10 e10 where
    s1: "when_given (name_filter a) (\<lambda>f. keep_if (name_cond (str_lower f))) (items, []) = Inr (l1, e1)" and
    s2: "when_given (workspace_filter a) (\<lambda>f. keep_if (workspace_cond (str_lower f))) (l1, e1) = Inr (l2, e2)" and
    s3: "when_given (owner_filter a) (\<lambda>f. keep_if (owner_cond (str_lower f))) (l2, e2) = Inr (l3, e3)" and
    s4: "when_given (visited_since a) (date_filter visited_since_cond) (l3, e3) = Inr (l4, e4)" and
    s5: "when_given (not_visited_since a) (date_filter not_visited_since_cond) (l4, e4) = Inr (l5, e5)" and
    s6: "when_given (refreshed_since a) (date_filter (refreshed_since_cond P)) (l5, e5) = Inr (l6, e6)" and
    s7: "when_given (not_refreshed_since a) (date_filter (not_refreshed_since_cond P)) (l6, e6) = Inr (l7, e7)" and
    s8: "when_given (updated_since a) (date_filter (updated_since_cond P)) (l7, e7) = Inr (l8, e8)" and
    s9: "when_given (not_updated_since a) (date_filter (not_updated_since_cond P)) (l8, e8) = Inr (l9, e9)" and
    s10: "when_given (storage_mode a) (\<lambda>f. keep_if (matches_storage (str_lower f))) (l9, e9) = Inr (l10, e10)" and
    s11: "when_given (capacity_sku a) (\<lambda>f. keep_if (sku_cond (str_upper f))) (l10, e10) = Inr (ys, err)"
    unfolding apply_filters_def by (auto dest!: and_then_Inr)
  note tr = subseq_order.trans
  have q11: "subseq ys l10" using when_given_keep_if_subseq [OF s11] by simp
  have q10: "subseq l10 l9" using when_given_keep_if_subseq [OF s10] by simp
  have q9: "subseq l9 l8" using when_given_date_filter_subseq [OF s9] by simp
  have q8: "subseq l8 l7" using when_given_date_filter_subseq [OF s8] by simp
  have q7: "subseq l7 l6" using when_given_date_filter_subseq [OF s7] by simp
  have q6: "subseq l6 l5" using when_given_date_filter_subseq [OF s6] by simp
  have q5: "subseq l5 l4" using when_given_date_filter_subseq [OF s5] by simp
  have q4: "subseq l4 l3" using when_given_date_filter_subseq [OF s4] by simp
  have q3: "subseq l3 l2" using when_given_keep_if_subseq [OF s3] by simp
  have q2: "subseq l2 l1" using when_given_keep_if_subseq [OF s2] by simp
  have q1: "subseq l1 items" using when_given_keep_if_subseq [OF s1] by simp
  have y10: "set ys \<subseteq> set l10" using q11 by (rule subseq_set)
  have y9: "set ys \<subseteq> set l9" using y10 subseq_set [OF q10] by blast
  have y8: "set ys \<subseteq> set l8" using y9 subseq_set [OF q9] by blast
  have y7: "set ys \<subseteq> set l7" using y8 subseq_set [OF q8] by blast
  have y6: "set ys \<subseteq> set l6" using y7 subseq_set [OF q7] by blast
  have y5: "set ys \<subseteq> set l5" using y6 subseq_set [OF q6] by blast
  have y4: "set ys \<subseteq> set l4" using y5 subseq_set [OF q5] by blast
  have y3: "set ys \<subseteq> set l3" using y4 subseq_set [OF q4] by blast
  have y2: "set ys \<subseteq> set l2" using y3 subseq_set [OF q3] by blast
  have y1: "set ys \<subseteq> set l1" using y2 subseq_set [OF q2] by blast
  have i3: "set l3 \<subseteq> set items"
    using subseq_set [OF q3] subseq_set [OF q2] subseq_set [OF q1] by blast
  have i4: "set l4 \<subseteq> set items" using subseq_set [OF q4] i3 by blast
  have v3: "visited_since_cond d x \<noteq> Inl ValueError" if "x \<in> set l3" for d x
    using that i3 wf by (intro visited_conds_no_ValueError) auto
  have v4: "not_visited_since_cond d x \<noteq> Inl ValueError" if "x \<in> set l4" for d x
    using that i4 wf by (intro visited_conds_no_ValueError) auto
  from when_given_keep_if_fixed [OF s1 y1, of "[]"] obtain w1 where
    w1: "e1 = w1" and t1: "when_given (name_filter a) (\<lambda>f. keep_if (name_cond (str_lower f))) (ys, []) = Inr (ys, w1)"
    by auto
  from when_given_keep_if_fixed [OF s2 y2, of e1] obtain w2 where
    w2: "e2 = e1 @ w2" and t2: "when_given (workspace_filter a) (\<lambda>f. keep_if (workspace_cond (str_lower f))) (ys, e1) = Inr (ys, e1 @ w2)"
    by auto
  from when_given_keep_if_fixed [OF s3 y3, of e2] obtain w3 where
    w3: "e3 = e2 @ w3" and t3: "when_given (owner_filter a) (\<lambda>f. keep_if (owner_cond (str_lower f))) (ys, e2) = Inr (ys, e2 @ w3)"
    by auto
  from when_given_date_filter_fixed [OF s4 v3 y4, of e3] obtain w4 where
    w4: "e4 = e3 @ w4" and t4: "when_given (visited_since a) (date_filter visited_since_cond) (ys, e3) = Inr (ys, e3 @ w4)"
    by auto
  from when_given_date_filter_fixed [OF s5 v4 y5, of e4] obtain w5 where
    w5: "e5 = e4 @ w5" and t5: "when_given (not_visited_since a) (date_filter not_visited_since_cond) (ys, e4) = Inr (ys, e4 @ w5)"
    by auto
  from when_given_date_filter_fixed [OF s6 refresh_conds_no_ValueError(1) y6, of e5] obtain w6 where
    w6: "e6 = e5 @ w6" and t6: "when_given (refreshed_since a) (date_filter (refreshed_since_cond P)) (ys, e5) = Inr (ys, e5 @ w6)"
    by auto
  from when_given_date_filter_fixed [OF s7 refresh_conds_no_ValueError(2) y7, of e6] obtain w7 where
    w7: "e7 = e6 @ w7" and t7: "when_given (not_refreshed_since a) (date_filter (not_refreshed_since_cond P)) (ys, e6) = Inr (ys, e6 @ w7)"
    by auto
  from when_given_date_filter_fixed [OF s8 refresh_conds_no_ValueError(3) y8, of e7] obtain w8 where
    w8: "e8 = e7 @ w8" and t8: "when_given (updated_since a) (date_filter (updated_since_cond P)) (ys, e7) = Inr (ys, e7 @ w8)"
    by auto
  from when_given_date_filter_fixed [OF s9 refresh_conds_no_ValueError(4) y9, of e8] obtain w9 where
    w9: "e9 = e8 @ w9" and t9: "when_given (not_updated_since a) (date_filter (not_updated_since_cond P)) (ys, e8) = Inr (ys, e8 @ w9)"
    by auto
  from when_given_keep_if_fixed [OF s10 y10, of e9] obtain w10 where
    w10: "e10 = e9 @ w10" and t10: "when_given (storage_mode a) (\<lambda>f. keep_if (matches_storage (str_lower f))) (ys, e9) = Inr (ys, e9 @ w10)"
    by auto
  from when_given_keep_if_fixed [OF s11 subset_refl, of e10] obtain w11 where
    w11: "err = e10 @ w11" and t11: "when_given (capacity_sku a) (\<lambda>f. keep_if (sku_cond (str_upper f))) (ys, e10) = Inr (ys, e10 @ w11)"
    by auto
  show ?thesis
    unfolding apply_filters_def
    using t1 t2 t3 t4 t5 t6 t7 t8 t9 t10 t11 w1 w2 w3 w4 w5 w6 w7 w8 w9 w10 w11
    by (simp add: and_then_def)
qed

theorem apply_filters_idempotent_well_formed_witness:
  "visited_date item_stale = Inr (Some (midnight 2023 1 1)) \<and>
   visited_date item_recent = Inr (Some (midnight 2024 12 1)) \<and>
   visited_date item_never = Inr None \<and>
   apply_filters utc_platform [item_stale, item_recent, item_never]
       (no_filters\<lparr>workspace_filter := Some ''fin'', visited_since := Some ''2024-06-01''\<rparr>)
     = Inr ([item_recent], []) \<and>
   apply_filters utc_platform [item_recent]
       (no_filters\<lparr>workspace_filter := Some ''fin'', visited_since := Some ''2024-06-01''\<rparr>)
     = Inr ([item_recent], [])"
proof -
  have v: "visited_date item_stale = Inr (Some (midnight 2023 1 1))"
    "visited_date item_recent = Inr (Some (midnight 2024 12 1))"
    "visited_date item_never = Inr None"
    by code_simp+
  have wf: "\<forall>item \<in> set [item_stale, item_recent, item_never]. visited_date item \<noteq> Inl ValueError"
    by (simp add: v)
  have r: "apply_filters utc_platform [item_stale, item_recent, item_never]
       (no_filters\<lparr>workspace_filter := Some ''fin'', visited_since := Some ''2024-06-01''\<rparr>)
     = Inr ([item_recent], [])"
    by code_simp
  from apply_filters_idempotent_well_formed [OF r wf] r v show ?thesis by simp
qed


section \<open>Properties of the sorter\<close>

lemma lt_form_irrefl_aux:
  "lt_form a b = Some True \<longrightarrow> a \<noteq> b" "lt_forms xs ys = Some True \<longrightarrow> xs \<noteq> ys"
  by (induction a b and xs ys rule: lt_form_lt_forms.induct) auto

lemma py_lt_not_eq: "py_lt a b = Some True \<Longrightarrow> \<not> py_eq a b"
  using lt_form_irrefl_aux(1) [of "eq_form a" "eq_form b"] by (simp add: py_lt_def py_eq_def)

lemma lt_form_trichotomy_aux:
  "lt_form a b = Some False \<longrightarrow> lt_form b a = Some False \<longrightarrow> a = b"
  "lt_forms xs ys = Some False \<longrightarrow> lt_forms ys xs = Some False \<longrightarrow> xs = ys"
  by (induction a b and xs ys rule: lt_form_lt_forms.induct) (auto split: if_splits)

lemma py_lt_neither_eq:
  "py_lt a b = Some False \<Longrightarrow> py_lt b a = Some False \<Longrightarrow> py_eq a b"
  using lt_form_trichotomy_aux(1) [of "eq_form a" "eq_form b"] by (simp add: py_lt_def py_eq_def)

lemma filter_insort_pair_out:
  "\<not> Q x \<Longrightarrow> filter Q (insort_pair x ys) = filter Q ys"
  by (induction ys) auto

lemma filter_insort_pair_in:
  assumes "Q x" and "\<And>y. Q y \<Longrightarrow> py_lt (fst y) (fst x) \<noteq> Some True"
  shows "filter Q (insort_pair x ys) = x # filter Q ys"
  using assms by (induction ys) auto

lemma filter_sort_pairs:
  "filter (\<lambda>p. py_eq (fst p) k) (sort_pairs kxs) = filter (\<lambda>p. py_eq (fst p) k) kxs"
proof (induction kxs)
  case Nil
  then show ?case by (simp add: sort_pairs_def)
next
  case (Cons x kxs)
  show ?case
  proof (cases "py_eq (fst x) k")
    case False
    then show ?thesis using Cons by (simp add: sort_pairs_def filter_insort_pair_out)
  next
    case True
    have "py_lt (fst y) (fst x) \<noteq> Some True" if "py_eq (fst y) k" for y :: "json \<times> 'a"
      using that True py_lt_not_eq [of "fst y" "fst x"] by (auto simp: py_eq_def)
    then have "filter (\<lambda>p. py_eq (fst p) k) (insort_pair x (sort_pairs kxs))
                 = x # filter (\<lambda>p. py_eq (fst p) k) (sort_pairs kxs)"
      using True by (intro filter_insort_pair_in) auto
    then show ?thesis using Cons True by (simp add: sort_pairs_def)
  qed
qed

lemma filter_rev_sort_pairs:
  "filter (\<lambda>p. py_eq (fst p) k) (rev (sort_pairs (rev kxs))) = filter (\<lambda>p. py_eq (fst p) k) kxs"
  by (simp add: rev_filter [symmetric] filter_sort_pairs)

lemma set_insort_pair: "set (insort_pair x ys) = insert x (set ys)"
  by (induction ys) auto

lemma set_sort_pairs: "set (sort_pairs kxs) = set kxs"
  by (induction kxs) (simp_all add: sort_pairs_def set_insort_pair)

lemma map_py_Inr:
  "map_py f xs = Inr ys \<Longrightarrow> length ys = length xs \<and> (\<forall>p \<in> set (zip ys xs). f (snd p) = Inr (fst p))"
proof (induction xs arbitrary: ys)
  case Nil
  then show ?case by simp
next
  case (Cons x xs)
  then show ?case by (auto split: sum.splits)
qed

lemma filter_map_snd_keyed:
  assumes "\<forall>p \<in> set zs. f (snd p) = Inr (fst p)"
  shows "filter (\<lambda>x. \<exists>v. f x = Inr v \<and> py_eq v k) (map snd zs)
           = map snd (filter (\<lambda>p. py_eq (fst p) k) zs)"
  using assms by (induction zs) auto

lemma py_sorted_stable:
  assumes "py_sorted key reverse items = Inr ys"
  shows "filter (\<lambda>x. \<exists>v. key x = Inr v \<and> py_eq v k) ys
           = filter (\<lambda>x. \<exists>v. key x = Inr v \<and> py_eq v k) items"
proof -
  from assms obtain keys where keys: "map_py key items = Inr keys"
    and ys: "ys = map snd (if reverse then rev (sort_pairs (rev (zip keys items)))
                           else sort_pairs (zip keys items))"
    by (auto simp: py_sorted_def and_then_def split: sum.splits if_splits)
  from map_py_Inr [OF keys] have len: "length keys = length items"
    and kz: "\<forall>p \<in> set (zip keys items). key (snd p) = Inr (fst p)" by auto
  let ?zs = "if reverse then rev (sort_pairs (rev (zip keys items))) else sort_pairs (zip keys items)"
  have "set ?zs = set (zip keys items)" by (simp add: set_sort_pairs)
  with kz have kz': "\<forall>p \<in> set ?zs. key (snd p) = Inr (fst p)" by simp
  have "filter (\<lambda>x. \<exists>v. key x = Inr v \<and> py_eq v k) ys
          = map snd (filter (\<lambda>p. py_eq (fst p) k) ?zs)"
    unfolding ys by (rule filter_map_snd_keyed [OF kz'])
  also have "\<dots> = map snd (filter (\<lambda>p. py_eq (fst p) k) (zip keys items))"
    by (simp add: filter_sort_pairs filter_rev_sort_pairs)
  also have "\<dots> = filter (\<lambda>x. \<exists>v. key x = Inr v \<and> py_eq v k) (map snd (zip keys items))"
    by (rule filter_map_snd_keyed [OF kz, symmetric])
  also have "map snd (zip keys items) = items" using len by simp
  finally show ?thesis .
qed

text \<open>
  C7. \<^verbatim>\<open>sort_items\<close> is stable in both directions: for each of the six sort fields,
  whenever it returns, the records whose key equals any given key \<open>k\<close> form the same
  sequence in the output as in the input, so two records with equal keys keep their
  relative order (and none is lost or repeated). For any other field name it returns its
  input unchanged.
\<close>

theorem sort_items_stable:
  "(\<forall>key ys k. (sort_by, key) \<in> set [(''name'', key_name), (''workspace'', key_workspace),
                    (''last-visited'', key_last_visited), (''last-refreshed'', key_last_refreshed),
                    (''last-modified'', key_last_modified), (''owner'', key_owner)] \<and>
        sort_items items sort_by sort_order = Inr ys \<longrightarrow>
        filter (\<lambda>x. \<exists>v. key x = Inr v \<and> py_eq v k) ys
          = filter (\<lambda>x. \<exists>v. key x = Inr v \<and> py_eq v k) items) \<and>
   (sort_by \<notin> set [''name'', ''workspace'', ''last-visited'', ''last-refreshed'', ''last-modified'',
                    ''owner''] \<longrightarrow>
      sort_items items sort_by sort_order = Inr items)"
proof (intro conjI allI impI)
  fix key ys k
  assume a: "(sort_by, key) \<in> set [(''name'', key_name), (''workspace'', key_workspace),
                    (''last-visited'', key_last_visited), (''last-refreshed'', key_last_refreshed),
                    (''last-modified'', key_last_modified), (''owner'', key_owner)] \<and>
        sort_items items sort_by sort_order = Inr ys"
  then have "py_sorted key (str_lower sort_order \<noteq> ''asc'') items = Inr ys"
    by (auto simp: sort_items_def Let_def)
  then show "filter (\<lambda>x. \<exists>v. key x = Inr v \<and> py_eq v k) ys
          = filter (\<lambda>x. \<exists>v. key x = Inr v \<and> py_eq v k) items"
    by (rule py_sorted_stable)
next
  assume "sort_by \<notin> set [''name'', ''workspace'', ''last-visited'', ''last-refreshed'', ''last-modified'',
                    ''owner'']"
  then show "sort_items items sort_by sort_order = Inr items"
    by (simp add: sort_items_def)
qed

theorem sort_items_stable_witness:
  "sort_items [item_stale, item_odata, item_recent, item_never] ''workspace'' ''desc''
     = Inr [item_odata, item_stale, item_recent, item_never] \<and>
   filter (\<lambda>x. \<exists>v. key_workspace x = Inr v \<and> py_eq v (JStr ''finance''))
       [item_odata, item_stale, item_recent, item_never] = [item_stale, item_recent, item_never] \<and>
   sort_items [item_stale, item_odata, item_recent, item_never] ''workspace'' ''asc''
     = Inr [item_stale, item_recent, item_never, item_odata] \<and>
   filter (\<lambda>x. \<exists>v. key_workspace x = Inr v \<and> py_eq v (JStr ''finance''))
       [item_stale, item_recent, item_never, item_odata] = [item_stale, item_recent, item_never] \<and>
   sort_items [item_stale, item_odata, item_recent, item_never] ''size'' ''asc''
     = Inr [item_stale, item_odata, item_recent, item_never]"
proof -
  have d: "sort_items [item_stale, item_odata, item_recent, item_never] ''workspace'' ''desc''
     = Inr [item_odata, item_stale, item_recent, item_never]"
    by code_simp
  have a: "sort_items [item_stale, item_odata, item_recent, item_never] ''workspace'' ''asc''
     = Inr [item_stale, item_recent, item_never, item_odata]"
    by code_simp
  have k: "key_workspace item_stale = Inr (JStr ''finance'')"
    "key_workspace item_recent = Inr (JStr ''finance'')"
    "key_workspace item_never = Inr (JStr ''finance'')"
    "key_workspace item_odata = Inr (JStr ''operations'')"
    by code_simp+
  have input: "filter (\<lambda>x. \<exists>v. key_workspace x = Inr v \<and> py_eq v (JStr ''finance''))
       [item_stale, item_odata, item_recent, item_never] = [item_stale, item_recent, item_never]"
    by (simp add: k py_eq_def)
  note t = sort_items_stable [where sort_by = "''workspace''" and sort_order = "''desc''"
      and items = "[item_stale, item_odata, item_recent, item_never]"]
  note u = sort_items_stable [where sort_by = "''workspace''" and sort_order = "''asc''"
      and items = "[item_stale, item_odata, item_recent, item_never]"]
  note n = sort_items_stable [where sort_by = "''size''" and sort_order = "''asc''"
      and items = "[item_stale, item_odata, item_recent, item_never]"]
  from t d have "filter (\<lambda>x. \<exists>v. key_workspace x = Inr v \<and> py_eq v (JStr ''finance''))
       [item_odata, item_stale, item_recent, item_never] =
     filter (\<lambda>x. \<exists>v. key_workspace x = Inr v \<and> py_eq v (JStr ''finance''))
       [item_stale, item_odata, item_recent, item_never]"
    by auto
  moreover
  from u a have "filter (\<lambda>x. \<exists>v. key_workspace x = Inr v \<and> py_eq v (JStr ''finance''))
       [item_stale, item_recent, item_never, item_odata] =
     filter (\<lambda>x. \<exists>v. key_workspace x = Inr v \<and> py_eq v (JStr ''finance''))
       [item_stale, item_odata, item_recent, item_never]"
    by auto
  moreover
  from n have "sort_items [item_stale, item_odata, item_recent, item_never] ''size'' ''asc''
     = Inr [item_stale, item_odata, item_recent, item_never]" by simp
  ultimately show ?thesis using d a input by simp
qed

subsection \<open>The output is the input, reordered\<close>

lemma mset_insort_pair: "mset (insort_pair x ys) = add_mset x (mset ys)"
  by (induction ys) auto

lemma mset_sort_pairs: "mset (sort_pairs kxs) = mset kxs"
  by (induction kxs) (simp_all add: sort_pairs_def mset_insort_pair)

lemma py_sorted_mset: "py_sorted key reverse items = Inr ys \<Longrightarrow> mset ys = mset items"
proof -
  assume a: "py_sorted key reverse items = Inr ys"
  then obtain keys where keys: "map_py key items = Inr keys"
    and ys: "ys = map snd (if reverse then rev (sort_pairs (rev (zip keys items)))
                           else sort_pairs (zip keys items))"
    by (auto simp: py_sorted_def and_then_def split: sum.splits if_splits)
  from map_py_Inr [OF keys] have len: "length keys = length items" by simp
  have "mset ys = mset (map snd (zip keys items))"
    unfolding ys by (simp add: mset_sort_pairs)
  with len show ?thesis by simp
qed

text \<open>Whenever \<^verbatim>\<open>sort_items\<close> returns, its list is a permutation of the input.\<close>

theorem sort_items_permutes:
  "sort_items items sort_by sort_order = Inr ys \<Longrightarrow> mset ys = mset items"
  by (auto simp: sort_items_def Let_def split: if_splits dest: py_sorted_mset)

theorem sort_items_permutes_witness:
  "sort_items [item_stale, item_odata, item_recent, item_never] ''name'' ''asc''
     = Inr [item_never, item_recent, item_odata, item_stale] \<and>
   mset [item_never, item_recent, item_odata, item_stale]
     = mset [item_stale, item_odata, item_recent, item_never]"
proof -
  have a: "sort_items [item_stale, item_odata, item_recent, item_never] ''name'' ''asc''
     = Inr [item_never, item_recent, item_odata, item_stale]"
    by code_simp
  from a sort_items_permutes [OF a] show ?thesis by blast
qed

lemma py_lt_text [simp]: "py_lt (JStr s) (JStr t) = Some (s < t)"
  by (simp add: py_lt_def)

lemma sorted_insort_pair_text:
  assumes "\<forall>p \<in> set (x # ys). \<exists>s. fst p = JStr s"
    and "sorted_wrt (\<lambda>p q. \<not> py_lt (fst q) (fst p) = Some True) ys"
  shows "sorted_wrt (\<lambda>p q. \<not> py_lt (fst q) (fst p) = Some True) (insort_pair x ys)"
  using assms
proof (induction ys)
  case Nil
  then show ?case by simp
next
  case (Cons y ys)
  from Cons.prems(1) obtain s t where s: "fst x = JStr s" and t: "fst y = JStr t" by auto
  show ?case
  proof (cases "t < s")
    case True
    have "sorted_wrt (\<lambda>p q. \<not> py_lt (fst q) (fst p) = Some True) (insort_pair x ys)"
      using Cons by auto
    moreover have "\<forall>q \<in> set (insort_pair x ys). \<not> py_lt (fst q) (fst y) = Some True"
      using Cons.prems True s t by (auto simp: set_insort_pair)
    ultimately show ?thesis using True s t by simp
  next
    case False
    have "\<not> py_lt (fst q) (fst x) = Some True" if "q \<in> set ys" for q
    proof -
      from that Cons.prems(1) obtain u where u: "fst q = JStr u" by auto
      from that Cons.prems(2) u t have "\<not> u < t" by auto
      with False have "\<not> u < s" by auto
      with u s show ?thesis by simp
    qed
    with Cons.prems False s t show ?thesis by auto
  qed
qed

lemma sorted_sort_pairs_text:
  "\<forall>p \<in> set kxs. \<exists>s. fst p = JStr s \<Longrightarrow>
   sorted_wrt (\<lambda>p q. \<not> py_lt (fst q) (fst p) = Some True) (sort_pairs kxs)"
proof (induction kxs)
  case Nil
  then show ?case by (simp add: sort_pairs_def)
next
  case (Cons x kxs)
  then have "sorted_wrt (\<lambda>p q. \<not> py_lt (fst q) (fst p) = Some True) (sort_pairs kxs)" by simp
  moreover have "\<forall>p \<in> set (x # sort_pairs kxs). \<exists>s. fst p = JStr s"
    using Cons.prems by (simp add: set_sort_pairs)
  ultimately have "sorted_wrt (\<lambda>p q. \<not> py_lt (fst q) (fst p) = Some True)
      (insort_pair x (sort_pairs kxs))"
    by (intro sorted_insort_pair_text)
  then show ?case by (simp add: sort_pairs_def)
qed

lemma sorted_texts:
  assumes "\<forall>p \<in> set zs. key (snd p) = Inr (fst p)"
    and "\<forall>p \<in> set zs. \<exists>s. fst p = JStr s"
    and "sorted_wrt (\<lambda>p q. \<not> py_lt (fst q) (fst p) = Some True) zs"
  shows "sorted (map (\<lambda>x. case key x of Inr (JStr s) \<Rightarrow> s | _ \<Rightarrow> []) (map snd zs))"
  using assms
proof (induction zs)
  case Nil
  then show ?case by simp
next
  case (Cons z zs)
  have "(case key (snd z) of Inr (JStr s) \<Rightarrow> s | _ \<Rightarrow> [])
          \<le> (case key (snd q) of Inr (JStr s) \<Rightarrow> s | _ \<Rightarrow> [])" if "q \<in> set zs" for q
  proof -
    from Cons.prems(2) that obtain s t where "fst z = JStr s" "fst q = JStr t" by auto
    moreover from Cons.prems(3) that have "\<not> py_lt (fst q) (fst z) = Some True" by auto
    ultimately show ?thesis using Cons.prems(1) that by auto
  qed
  moreover have "sorted (map (\<lambda>x. case key x of Inr (JStr s) \<Rightarrow> s | _ \<Rightarrow> []) (map snd zs))"
    using Cons by auto
  ultimately show ?case by auto
qed

lemma py_sorted_text_ordered:
  assumes "py_sorted key reverse items = Inr ys"
    and "\<And>x k. key x = Inr k \<Longrightarrow> \<exists>s. k = JStr s"
  shows "if reverse then sorted (rev (map (\<lambda>x. case key x of Inr (JStr s) \<Rightarrow> s | _ \<Rightarrow> []) ys))
         else sorted (map (\<lambda>x. case key x of Inr (JStr s) \<Rightarrow> s | _ \<Rightarrow> []) ys)"
proof -
  from assms(1) obtain keys where keys: "map_py key items = Inr keys"
    and ys: "ys = map snd (if reverse then rev (sort_pairs (rev (zip keys items)))
                           else sort_pairs (zip keys items))"
    by (auto simp: py_sorted_def and_then_def split: sum.splits if_splits)
  from map_py_Inr [OF keys] have
    kz: "\<forall>p \<in> set (zip keys items). key (snd p) = Inr (fst p)" by auto
  with assms(2) have tx: "\<forall>p \<in> set (zip keys items). \<exists>s. fst p = JStr s" by blast
  show ?thesis
  proof (cases reverse)
    case False
    have "sorted (map (\<lambda>x. case key x of Inr (JStr s) \<Rightarrow> s | _ \<Rightarrow> [])
                      (map snd (sort_pairs (zip keys items))))"
      using kz tx by (intro sorted_texts sorted_sort_pairs_text) (simp_all add: set_sort_pairs)
    with False ys show ?thesis by simp
  next
    case True
    have "sorted (map (\<lambda>x. case key x of Inr (JStr s) \<Rightarrow> s | _ \<Rightarrow> [])
                      (map snd (sort_pairs (rev (zip keys items)))))"
      using kz tx by (intro sorted_texts sorted_sort_pairs_text) (simp_all add: set_sort_pairs)
    with True ys show ?thesis by (simp add: rev_map)
  qed
qed

lemma get_lower_text: "and_then (get_lower x f) (\<lambda>s. Inr (JStr s)) = Inr k \<Longrightarrow> \<exists>s. k = JStr s"
  by (auto simp: and_then_def split: sum.splits)

text \<open>
  For the three fields whose key is text in lower case (name, workspace, owner), the keys
  of the output are in ascending order when the direction is \<^verbatim>\<open>asc\<close> and in descending
  order otherwise; a record without the field has the empty text as its key.
\<close>

theorem sort_items_text_ordered:
  assumes "(sort_by, key) \<in> set [(''name'', key_name), (''workspace'', key_workspace), (''owner'', key_owner)]"
    and "sort_items items sort_by sort_order = Inr ys"
  shows "if str_lower sort_order = ''asc''
         then sorted (map (\<lambda>x. case key x of Inr (JStr s) \<Rightarrow> s | _ \<Rightarrow> []) ys)
         else sorted (rev (map (\<lambda>x. case key x of Inr (JStr s) \<Rightarrow> s | _ \<Rightarrow> []) ys))"
proof -
  from assms have p: "py_sorted key (str_lower sort_order \<noteq> ''asc'') items = Inr ys"
    by (auto simp: sort_items_def Let_def)
  have t: "\<exists>s. k = JStr s" if "key x = Inr k" for x k
    using that assms(1)
    by (auto simp: key_name_def key_workspace_def key_owner_def and_then_def split: sum.splits)
  from py_sorted_text_ordered [OF p t] show ?thesis by (auto split: if_splits)
qed

theorem sort_items_text_ordered_witness:
  "sort_items [item_stale, item_odata, item_recent, item_never] ''name'' ''desc''
     = Inr [item_stale, item_odata, item_recent, item_never] \<and>
   sorted (rev (map (\<lambda>x. case key_name x of Inr (JStr s) \<Rightarrow> s | _ \<Rightarrow> [])
                    [item_stale, item_odata, item_recent, item_never]))"
proof -
  have a: "sort_items [item_stale, item_odata, item_recent, item_never] ''name'' ''desc''
     = Inr [item_stale, item_odata, item_recent, item_never]"
    by code_simp
  have l: "str_lower ''desc'' \<noteq> ''asc''" by (simp add: str_lower_def lower_char_def)
  have m: "(''name'', key_name) \<in> set [(''name'', key_name), (''workspace'', key_workspace), (''owner'', key_owner)]"
    by simp
  from sort_items_text_ordered [OF m a] l a show ?thesis by simp
qed


section \<open>Properties of the formatter\<close>

text \<open>
  C9. For the empty list, \<^verbatim>\<open>format_output\<close> gives the text \<^verbatim>\<open>No items found.\<close> in the
  table, brief and detailed modes, and in the json mode the text of the empty list.
\<close>

theorem format_output_empty:
  "format_output P [] ''table'' = Inr ''No items found.'' \<and>
   format_output P [] ''brief'' = Inr ''No items found.'' \<and>
   format_output P [] ''detailed'' = Inr ''No items found.'' \<and>
   format_output P [] ''json'' = Inr ''[]''"
  by (simp add: format_output_def and_then_def bracket_def)

text \<open>A list that is not empty is rendered in every mode; the brief mode for two records:\<close>

lemma format_output_brief_example:
  "format_output utc_platform [item_stale, item_odata] ''brief''
     = Inr (''Finance/Sales'' @ [CHR 0x0A] @ ''Operations/Legacy'')"
  by code_simp

text \<open>
  The storage label of a record with an artifact: the direct-lake flag comes first, then
  the numeric code, and anything else is \<^verbatim>\<open>Unknown\<close>.
\<close>

theorem storage_label:
  assumes "dict_get item ''artifact'' (JObj []) = Inr (JObj art)"
  shows "get_storage_mode item =
     Inr (if truthy (case map_of art ''directLakeMode'' of Some v \<Rightarrow> v | None \<Rightarrow> JNull)
            then ''DirectLake''
          else if py_eq (case map_of art ''storageMode'' of Some v \<Rightarrow> v | None \<Rightarrow> JNull) (JInt 1)
            then ''Import''
          else if py_eq (case map_of art ''storageMode'' of Some v \<Rightarrow> v | None \<Rightarrow> JNull) (JInt 2)
            then ''DirectQuery''
          else ''Unknown'')"
  using assms by (simp add: get_storage_mode_def and_then_def)

theorem storage_label_witness:
  "dict_get item_recent ''artifact'' (JObj []) =
     Inr (JObj [(''directLakeMode'', JBool True), (''storageMode'', JInt 2)]) \<and>
   get_storage_mode item_recent = Inr ''DirectLake''"
proof -
  have a: "dict_get item_recent ''artifact'' (JObj []) =
     Inr (JObj [(''directLakeMode'', JBool True), (''storageMode'', JInt 2)])"
    by (simp add: item_recent_def)
  from storage_label [OF a] a show ?thesis by simp
qed


end
